theory Spec2Isabelle
  imports Complex_Main "HOL-Library.Word"
begin

section \<open>Outcomes of a call\<close>

text \<open>
  The header \<^verbatim>\<open>include/fbgemm/QuantUtils.h\<close> has no exceptions and no error returns.
  A call can still fail to produce a value in three ways, each of which is a branch of
  the model:
  \<^item> undefined behaviour of the language (signed overflow, a shift count out of range,
    a floating value converted to an integer type that cannot hold it, an access outside
    a buffer);
  \<^item> a failed \<^verbatim>\<open>assert\<close> (the header includes \<^verbatim>\<open><cassert>\<close>; the model is the
    build in which the assertions are compiled in);
  \<^item> an unspecified result of the C library (\<^verbatim>\<open>lrintf\<close> of a value outside
    \<^verbatim>\<open>long\<close>).
\<close>

datatype error = UndefinedBehaviour | AssertionFailed | UnspecifiedResult

definition and_then :: "error + 'a \<Rightarrow> ('a \<Rightarrow> error + 'b) \<Rightarrow> error + 'b" where
  "and_then m f = (case m of Inl e \<Rightarrow> Inl e | Inr v \<Rightarrow> f v)"

section \<open>Integer types\<close>

text \<open>
  The template parameter \<^verbatim>\<open>T\<close> (\<^verbatim>\<open>T2\<close> of \<^verbatim>\<open>clamp\<close>) ranges over the integer
  types of 8, 16 and 32 bits. A value of type \<^verbatim>\<open>T\<close> is carried as the integer it
  denotes. \<^verbatim>\<open>std::int32_t\<close> arguments are \<open>32 word\<close>, \<^verbatim>\<open>std::int64_t\<close> and
  \<^verbatim>\<open>long\<close> (LP64) are \<open>64 word\<close>, read with \<open>sint\<close>. The \<^verbatim>\<open>int\<close> arguments
  \<^verbatim>\<open>precision\<close> and \<^verbatim>\<open>right_shift\<close> are HOL integers: they are only used as shift
  counts, and every count outside the defined range reaches the undefined branch.
\<close>

datatype itype = U8 | I8 | U16 | I16 | U32 | I32

fun bits :: "itype \<Rightarrow> nat" where
  "bits U8 = 8"
| "bits I8 = 8"
| "bits U16 = 16"
| "bits I16 = 16"
| "bits U32 = 32"
| "bits I32 = 32"

text \<open>\<^verbatim>\<open>std::is_signed<T>::value\<close>\<close>

fun is_signed_type :: "itype \<Rightarrow> bool" where
  "is_signed_type U8 = False"
| "is_signed_type I8 = True"
| "is_signed_type U16 = False"
| "is_signed_type I16 = True"
| "is_signed_type U32 = False"
| "is_signed_type I32 = True"

text \<open>\<^verbatim>\<open>std::numeric_limits<T>::lowest()\<close> and \<^verbatim>\<open>std::numeric_limits<T>::max()\<close>\<close>

definition lowest :: "itype \<Rightarrow> int" where
  "lowest T = (if is_signed_type T then - (2 ^ (bits T - 1)) else 0)"

definition highest :: "itype \<Rightarrow> int" where
  "highest T = (if is_signed_type T then 2 ^ (bits T - 1) - 1 else 2 ^ bits T - 1)"

definition in_range :: "itype \<Rightarrow> int \<Rightarrow> bool" where
  "in_range T v \<longleftrightarrow> lowest T \<le> v \<and> v \<le> highest T"

text \<open>
  Integral conversion to \<^verbatim>\<open>T\<close>: the value modulo \<open>2 ^ bits T\<close>, read in two's
  complement for a signed \<^verbatim>\<open>T\<close>.
\<close>

definition convert :: "itype \<Rightarrow> int \<Rightarrow> int" where
  "convert T v = (if is_signed_type T then signed_take_bit (bits T - 1) v else take_bit (bits T) v)"

text \<open>Conversion to \<^verbatim>\<open>std::int32_t\<close>, as in the initialisers of \<^verbatim>\<open>min\<close> and \<^verbatim>\<open>max\<close>.\<close>

definition to_int32 :: "int \<Rightarrow> int" where
  "to_int32 v = signed_take_bit 31 v"

section \<open>The clamp primitive\<close>

text \<open>
  \<^verbatim>\<open>1LL << n\<close>: defined for a count from 0 to 62; a negative count and a count of 64
  or more are undefined. So is the count 63 here: the shift into the sign bit is undefined
  before C++14, and where it is defined it gives the lowest \<^verbatim>\<open>long long\<close>, whose
  negation and whose predecessor, the only uses below, overflow.
\<close>

definition shift_1LL :: "int \<Rightarrow> error + int" where
  "shift_1LL n = (if 0 \<le> n \<and> n \<le> 62 then Inr (2 ^ nat n) else Inl UndefinedBehaviour)"

text \<open>
  \<^verbatim>\<open>is_signed ? -(1LL << (precision - 1)) : 0\<close> and
  \<^verbatim>\<open>is_signed ? ((1LL << (precision - 1)) - 1) : (1LL << precision) - 1\<close>,
  in \<^verbatim>\<open>long long\<close>, before they are stored in the \<^verbatim>\<open>std::int32_t\<close> locals.
\<close>

definition clamp_min :: "int \<Rightarrow> bool \<Rightarrow> error + int" where
  "clamp_min precision is_signed =
     (if is_signed then and_then (shift_1LL (precision - 1)) (\<lambda>v. Inr (- v)) else Inr 0)"

definition clamp_max :: "int \<Rightarrow> bool \<Rightarrow> error + int" where
  "clamp_max precision is_signed =
     (if is_signed then and_then (shift_1LL (precision - 1)) (\<lambda>v. Inr (v - 1))
      else and_then (shift_1LL precision) (\<lambda>v. Inr (v - 1)))"

text \<open>
  The assertions compare the \<^verbatim>\<open>std::int32_t\<close> bound with a limit of \<^verbatim>\<open>T2\<close>. Under
  the usual arithmetic conversions the comparison is made in \<^verbatim>\<open>int\<close> for the types
  narrower than \<^verbatim>\<open>int\<close> and for \<^verbatim>\<open>std::int32_t\<close>, and in \<^verbatim>\<open>unsigned int\<close> for
  \<^verbatim>\<open>std::uint32_t\<close>, where the bound is first reduced modulo \<open>2 ^ 32\<close>.
\<close>

definition assert_operand :: "itype \<Rightarrow> int \<Rightarrow> int" where
  "assert_operand T v = (if T = U32 then take_bit 32 v else v)"

text \<open>
  \<^verbatim>\<open>clamp<T1, T2>(src, precision, is_signed)\<close> with \<^verbatim>\<open>T1 = std::int64_t\<close> (or
  \<^verbatim>\<open>long\<close>), the only instances this header makes. The result is the value of the
  returned \<^verbatim>\<open>T2\<close>.
\<close>

definition clamp :: "itype \<Rightarrow> 64 word \<Rightarrow> int \<Rightarrow> bool \<Rightarrow> error + int" where
  "clamp T2 src precision is_signed =
     and_then (clamp_min precision is_signed) (\<lambda>min64.
     and_then (clamp_max precision is_signed) (\<lambda>max64.
       let mn = to_int32 min64; mx = to_int32 max64 in
       if \<not> (- (2 ^ 63) \<le> mn) then Inl AssertionFailed
       else if \<not> (lowest T2 \<le> assert_operand T2 mn) then Inl AssertionFailed
       else if \<not> (mx \<le> 2 ^ 63 - 1) then Inl AssertionFailed
       else if \<not> (assert_operand T2 mx \<le> highest T2) then Inl AssertionFailed
       else Inr (convert T2 (min (max (sint src) mn) mx))))"

text \<open>
  The bounds of a precision as the spec words them, on the integers:
  \<open>is_signed ? -2^(precision-1) : 0\<close> and
  \<open>is_signed ? 2^(precision-1)-1 : 2^precision - 1\<close>. They are what \<^verbatim>\<open>clamp\<close> is
  compared with.
\<close>

definition lowest_code :: "int \<Rightarrow> bool \<Rightarrow> int" where
  "lowest_code p is_signed = (if is_signed then - (2 ^ nat (p - 1)) else 0)"

definition highest_code :: "int \<Rightarrow> bool \<Rightarrow> int" where
  "highest_code p is_signed = (if is_signed then 2 ^ nat (p - 1) - 1 else 2 ^ nat p - 1)"

section \<open>Single-precision floating point\<close>

text \<open>
  \<^verbatim>\<open>float\<close> is IEEE 754 binary32: 24 significant bits, exponents from \<open>-126\<close> to
  \<open>127\<close>, subnormal numbers with the spacing \<open>2 ^ -149\<close>, two infinities and NaN.
  A finite value is carried as the rational number it denotes; \<open>Finite 0\<close> is the
  positive zero and \<open>NegZero\<close> the negative one. Every operation is the exact
  operation on the rationals followed by one rounding to the format. The header never
  changes the floating-point environment, so the rounding is the default one, to nearest
  with ties to even, and expressions are evaluated in the format of their type.
\<close>

datatype float = Finite rat | NegZero | PInf | NInf | NaN

text \<open>The integer nearest to \<open>x\<close>, a tie going to the even neighbour.\<close>

definition rne :: "rat \<Rightarrow> int" where
  "rne x = (let f = \<lfloor>x\<rfloor>; d = x - of_int f in
     if d < 1 / 2 then f else if 1 / 2 < d then f + 1 else if even f then f else f + 1)"

function log2_int :: "int \<Rightarrow> int" where
  "log2_int n = (if n < 2 then 0 else 1 + log2_int (n div 2))"
  by auto
termination
  by (relation "measure nat") auto

declare log2_int.simps [simp del]

text \<open>The exponent \<open>e\<close> with \<open>2 ^ e \<le> r < 2 ^ (e + 1)\<close>, for a positive \<open>r\<close>.\<close>

definition floor_log2 :: "rat \<Rightarrow> int" where
  "floor_log2 r = (if 1 \<le> r then log2_int \<lfloor>r\<rfloor>
     else - (let n = \<lceil>1 / r\<rceil> in if n \<le> 1 then 0 else 1 + log2_int (n - 1)))"

definition pow2 :: "int \<Rightarrow> rat" where
  "pow2 k = (if 0 \<le> k then 2 ^ nat k else 1 / 2 ^ nat (- k))"

text \<open>
  Rounding a rational to binary32. \<open>ulp r\<close> is the spacing of the format at \<open>r\<close>;
  a result of magnitude \<open>2 ^ 128\<close> or more overflows to an infinity, a nonzero \<open>r\<close> that
  rounds to zero keeps its sign.
\<close>

definition ulp :: "rat \<Rightarrow> rat" where
  "ulp r = pow2 (max (floor_log2 \<bar>r\<bar>) (- 126) - 23)"

definition round_f32 :: "rat \<Rightarrow> float" where
  "round_f32 r = (if r = 0 then Finite 0 else
     let v = of_int (rne (r / ulp r)) * ulp r in
     if 2 ^ 128 \<le> \<bar>v\<bar> then (if r < 0 then NInf else PInf)
     else if v = 0 \<and> r < 0 then NegZero else Finite v)"

definition is_zero :: "float \<Rightarrow> bool" where
  "is_zero a \<longleftrightarrow> a = Finite 0 \<or> a = NegZero"

definition is_inf :: "float \<Rightarrow> bool" where
  "is_inf a \<longleftrightarrow> a = PInf \<or> a = NInf"

fun sign_bit :: "float \<Rightarrow> bool" where
  "sign_bit (Finite r) = (r < 0)"
| "sign_bit NegZero = True"
| "sign_bit PInf = False"
| "sign_bit NInf = True"
| "sign_bit NaN = False"

text \<open>The value of a finite number; both zeros have the value 0.\<close>

fun valof :: "float \<Rightarrow> rat" where
  "valof (Finite r) = r"
| "valof a = 0"

definition is_finite :: "float \<Rightarrow> bool" where
  "is_finite a \<longleftrightarrow> (case a of Finite r \<Rightarrow> True | NegZero \<Rightarrow> True | _ \<Rightarrow> False)"

definition signed_zero :: "bool \<Rightarrow> float" where
  "signed_zero s = (if s then NegZero else Finite 0)"

definition signed_inf :: "bool \<Rightarrow> float" where
  "signed_inf s = (if s then NInf else PInf)"

definition fmul :: "float \<Rightarrow> float \<Rightarrow> float" where
  "fmul a b =
     (if a = NaN \<or> b = NaN then NaN
      else if is_inf a \<or> is_inf b then
        (if is_zero a \<or> is_zero b then NaN else signed_inf (sign_bit a \<noteq> sign_bit b))
      else if is_zero a \<or> is_zero b then signed_zero (sign_bit a \<noteq> sign_bit b)
      else round_f32 (valof a * valof b))"

definition fdiv :: "float \<Rightarrow> float \<Rightarrow> float" where
  "fdiv a b =
     (if a = NaN \<or> b = NaN then NaN
      else if is_inf a then (if is_inf b then NaN else signed_inf (sign_bit a \<noteq> sign_bit b))
      else if is_inf b then signed_zero (sign_bit a \<noteq> sign_bit b)
      else if is_zero b then (if is_zero a then NaN else signed_inf (sign_bit a \<noteq> sign_bit b))
      else if is_zero a then signed_zero (sign_bit a \<noteq> sign_bit b)
      else round_f32 (valof a / valof b))"

definition fadd :: "float \<Rightarrow> float \<Rightarrow> float" where
  "fadd a b =
     (if a = NaN \<or> b = NaN then NaN
      else if is_inf a then (if is_inf b \<and> a \<noteq> b then NaN else a)
      else if is_inf b then b
      else if is_zero a \<and> is_zero b then signed_zero (sign_bit a \<and> sign_bit b)
      else if valof a + valof b = 0 then Finite 0
      else round_f32 (valof a + valof b))"

text \<open>Conversion of an integer value to \<^verbatim>\<open>float\<close>.\<close>

definition float_of_int :: "int \<Rightarrow> float" where
  "float_of_int n = round_f32 (of_int n)"

text \<open>\<^verbatim>\<open>std::nearbyint\<close> in the default rounding mode.\<close>

fun nearbyint :: "float \<Rightarrow> float" where
  "nearbyint (Finite r) = (if rne r = 0 \<and> r < 0 then NegZero else Finite (of_int (rne r)))"
| "nearbyint a = a"

text \<open>
  \<^verbatim>\<open>static_cast<std::int64_t>\<close> of a \<^verbatim>\<open>float\<close>: the fraction is discarded;
  undefined when the truncated value is not an \<^verbatim>\<open>int64_t\<close>, and for an infinity or NaN.
\<close>

definition trunc_toward_zero :: "rat \<Rightarrow> int" where
  "trunc_toward_zero r = (if 0 \<le> r then \<lfloor>r\<rfloor> else \<lceil>r\<rceil>)"

fun to_int64 :: "float \<Rightarrow> error + 64 word" where
  "to_int64 (Finite r) =
     (if - (2 ^ 63) \<le> trunc_toward_zero r \<and> trunc_toward_zero r < 2 ^ 63
      then Inr (word_of_int (trunc_toward_zero r))
      else Inl UndefinedBehaviour)"
| "to_int64 NegZero = Inr 0"
| "to_int64 a = Inl UndefinedBehaviour"

text \<open>
  \<^verbatim>\<open>std::lrintf\<close> in the default rounding mode, returning \<^verbatim>\<open>long\<close>: the result is
  unspecified when the rounded value is outside \<^verbatim>\<open>long\<close>.
\<close>

fun lrintf :: "float \<Rightarrow> error + 64 word" where
  "lrintf (Finite r) =
     (if - (2 ^ 63) \<le> rne r \<and> rne r < 2 ^ 63 then Inr (word_of_int (rne r))
      else Inl UnspecifiedResult)"
| "lrintf NegZero = Inr 0"
| "lrintf a = Inl UnspecifiedResult"

section \<open>Parameters\<close>

record TensorQuantizationParams =
  scale :: float
  zero_point :: "32 word"
  precision :: int

record RequantizationParams =
  real_multiplier :: float
  multiplier :: "32 word"
  right_shift :: int
  target_qparams :: TensorQuantizationParams

section \<open>Quantize and Dequantize\<close>

text \<open>
  \<^verbatim>\<open>Quantize<T>(src, zero_point, scale, result_precision, result_is_signed)\<close>.
  The local \<^verbatim>\<open>transformed_val\<close> is \<^verbatim>\<open>zero_point + src / scale\<close> in \<^verbatim>\<open>float\<close>:
  \<^verbatim>\<open>zero_point\<close> is converted to \<^verbatim>\<open>float\<close> for the addition.
\<close>

definition transformed_val :: "float \<Rightarrow> 32 word \<Rightarrow> float \<Rightarrow> float" where
  "transformed_val src zp scl = fadd (float_of_int (sint zp)) (fdiv src scl)"

definition Quantize :: "itype \<Rightarrow> float \<Rightarrow> 32 word \<Rightarrow> float \<Rightarrow> int \<Rightarrow> bool \<Rightarrow> error + int" where
  "Quantize T src zp scl result_precision result_is_signed =
     and_then (to_int64 (nearbyint (transformed_val src zp scl)))
       (\<lambda>q. clamp T q result_precision result_is_signed)"


text \<open>
  The subexpression \<^verbatim>\<open>src - qparams.zero_point\<close> of \<^verbatim>\<open>Dequantize\<close>. A \<^verbatim>\<open>src\<close> of
  fewer than 32 bits is promoted to \<^verbatim>\<open>int\<close> and the subtraction is made in \<^verbatim>\<open>int\<close>,
  as it is for \<^verbatim>\<open>std::int32_t\<close>: an overflow is undefined. For \<^verbatim>\<open>std::uint32_t\<close>
  the zero point is converted to \<^verbatim>\<open>unsigned int\<close> and the subtraction is made modulo
  \<open>2 ^ 32\<close>.
\<close>

definition src_minus_zero_point :: "itype \<Rightarrow> int \<Rightarrow> 32 word \<Rightarrow> error + int" where
  "src_minus_zero_point T src zp =
     (if T = U32 then Inr (take_bit 32 (src - sint zp))
      else if - (2 ^ 31) \<le> src - sint zp \<and> src - sint zp < 2 ^ 31 then Inr (src - sint zp)
      else Inl UndefinedBehaviour)"

text \<open>\<^verbatim>\<open>Dequantize<T>(src, qparams)\<close>\<close>

definition Dequantize :: "itype \<Rightarrow> int \<Rightarrow> TensorQuantizationParams \<Rightarrow> error + float" where
  "Dequantize T src qparams =
     and_then (src_minus_zero_point T src (zero_point qparams))
       (\<lambda>d. Inr (fmul (scale qparams) (float_of_int d)))"



subsection \<open>The bulk form of Dequantize\<close>

text \<open>
  Memory is a store of cells, one cell for each array element: a pointer is the address
  of a cell and \<^verbatim>\<open>p[i]\<close> is the cell at \<open>p + i\<close>. A cell holds an integer (an element of
  a \<^verbatim>\<open>T\<close> buffer) or a \<^verbatim>\<open>float\<close>; an address outside every buffer holds nothing.
  Reading \<^verbatim>\<open>src[i]\<close> is undefined unless the cell holds an integer, writing
  \<^verbatim>\<open>dst[i]\<close> is undefined unless the cell exists.
\<close>

datatype cell = IntCell int | FloatCell float

type_synonym store = "nat \<Rightarrow> cell option"

text \<open>
  The bound of the loop guard \<^verbatim>\<open>i < len\<close>: \<^verbatim>\<open>i\<close> is a \<^verbatim>\<open>std::size_t\<close> (64 bits),
  so the \<^verbatim>\<open>int\<close> \<^verbatim>\<open>len\<close> is converted to \<^verbatim>\<open>std::size_t\<close> for the comparison.
\<close>

definition loop_bound :: "32 word \<Rightarrow> nat" where
  "loop_bound len = unat (scast len :: 64 word)"

text \<open>
  The loop \<^verbatim>\<open>for (std::size_t i = 0; i < len; i++) dst[i] = Dequantize(src[i], qparams);\<close>
  from the state \<open>(i, st)\<close>, with the converted bound \<open>n\<close>. It returns the state in which
  the guard fails: the final \<open>i\<close> is the number of iterations made.
\<close>

function Dequantize_loop ::
  "itype \<Rightarrow> nat \<Rightarrow> nat \<Rightarrow> nat \<Rightarrow> TensorQuantizationParams \<Rightarrow> nat \<times> store \<Rightarrow> error + nat \<times> store" where
  "Dequantize_loop T src dst n qparams (i, st) =
     (if i < n then
        (case st (src + i) of
           Some (IntCell v) \<Rightarrow>
             (case Dequantize T v qparams of
                Inl e \<Rightarrow> Inl e
              | Inr f \<Rightarrow>
                  (if st (dst + i) = None then Inl UndefinedBehaviour
                   else Dequantize_loop T src dst n qparams (Suc i, st(dst + i \<mapsto> FloatCell f))))
         | _ \<Rightarrow> Inl UndefinedBehaviour)
      else Inr (i, st))"
  by pat_completeness auto
termination
  by (relation "measure (\<lambda>(T, src, dst, n, qparams, i, st). n - i)") auto

declare Dequantize_loop.simps [simp del]

text \<open>\<^verbatim>\<open>Dequantize<T>(src, dst, len, qparams)\<close>\<close>

definition Dequantize_bulk ::
  "itype \<Rightarrow> nat \<Rightarrow> nat \<Rightarrow> 32 word \<Rightarrow> TensorQuantizationParams \<Rightarrow> store \<Rightarrow> error + nat \<times> store" where
  "Dequantize_bulk T src dst len qparams st =
     Dequantize_loop T src dst (loop_bound len) qparams (0, st)"

section \<open>Requantization\<close>

text \<open>Addition of two \<^verbatim>\<open>std::int64_t\<close> (or \<^verbatim>\<open>long\<close>) values: an overflow is undefined.\<close>

definition add_int64 :: "64 word \<Rightarrow> 64 word \<Rightarrow> error + 64 word" where
  "add_int64 a b =
     (if - (2 ^ 63) \<le> sint a + sint b \<and> sint a + sint b < 2 ^ 63 then Inr (a + b)
      else Inl UndefinedBehaviour)"

text \<open>
  \<^verbatim>\<open>SaturatingRoundingMulWithShift\<close> is declared in the header and defined elsewhere:
  it is the parameter \<open>srmws\<close> of the functions that call it, so that what is proved
  of them holds for every definition of it.

  \<^verbatim>\<open>Requantize<T>(src, zero_point, multiplier, right_shift, result_precision,
  result_is_signed)\<close>, the fixed-point overload. \<^verbatim>\<open>zero_point\<close> is converted to
  \<^verbatim>\<open>std::int64_t\<close> for the addition.
\<close>

definition Requantize_fixed ::
  "(32 word \<Rightarrow> 32 word \<Rightarrow> int \<Rightarrow> error + 64 word) \<Rightarrow> itype \<Rightarrow> 32 word \<Rightarrow> 32 word \<Rightarrow> 32 word \<Rightarrow> int
     \<Rightarrow> int \<Rightarrow> bool \<Rightarrow> error + int" where
  "Requantize_fixed srmws T src zp mult rshift result_precision result_is_signed =
     and_then (srmws src mult rshift) (\<lambda>m.
     and_then (add_int64 (scast zp) m) (\<lambda>quantized_down.
       clamp T quantized_down result_precision result_is_signed))"

text \<open>
  \<^verbatim>\<open>RequantizeFixedPoint<T>(src, params)\<close>: the call gives five arguments, the sixth is
  the default \<^verbatim>\<open>result_is_signed = false\<close>.
\<close>

definition RequantizeFixedPoint ::
  "(32 word \<Rightarrow> 32 word \<Rightarrow> int \<Rightarrow> error + 64 word) \<Rightarrow> itype \<Rightarrow> 32 word \<Rightarrow> RequantizationParams
     \<Rightarrow> error + int" where
  "RequantizeFixedPoint srmws T src params =
     Requantize_fixed srmws T src (zero_point (target_qparams params)) (multiplier params)
       (right_shift params) (precision (target_qparams params)) False"

text \<open>
  \<^verbatim>\<open>Requantize<T>(src, zero_point, multiplier, result_precision, result_is_signed)\<close>
  with a \<^verbatim>\<open>float\<close> multiplier. \<^verbatim>\<open>src\<close> is converted to \<^verbatim>\<open>float\<close> for the product, the
  sum is made in \<^verbatim>\<open>long\<close>.
\<close>

definition Requantize_float ::
  "itype \<Rightarrow> 32 word \<Rightarrow> 32 word \<Rightarrow> float \<Rightarrow> int \<Rightarrow> bool \<Rightarrow> error + int" where
  "Requantize_float T src zp mult result_precision result_is_signed =
     and_then (lrintf (fmul (float_of_int (sint src)) mult)) (\<lambda>r.
     and_then (add_int64 (scast zp) r) (\<lambda>quantized_down.
       clamp T quantized_down result_precision result_is_signed))"

text \<open>
  \<^verbatim>\<open>Requantize<T>(src, params)\<close>: four arguments, the fifth is the default
  \<^verbatim>\<open>result_is_signed = false\<close>.
\<close>

definition Requantize_params :: "itype \<Rightarrow> 32 word \<Rightarrow> RequantizationParams \<Rightarrow> error + int" where
  "Requantize_params T src params =
     Requantize_float T src (zero_point (target_qparams params)) (real_multiplier params)
       (precision (target_qparams params)) False"

text \<open>
  Modelled from the spec: \<^verbatim>\<open>SaturatingRoundingMulWithShift\<close> is declared in the header
  and defined elsewhere. The spec says that it computes the 64-bit product of its two
  operands and returns it unchanged for the shift 0; otherwise it adds the rounding bias
  \<open>2 ^ (right_shift - 1)\<close> and shifts right by \<^verbatim>\<open>right_shift\<close>, except that the pair
  of two most negative 32-bit operands saturates to the greatest 64-bit value. The spec
  gives no meaning to a negative shift.
\<close>

definition SaturatingRoundingMulWithShift :: "32 word \<Rightarrow> 32 word \<Rightarrow> int \<Rightarrow> error + 64 word" where
  "SaturatingRoundingMulWithShift a b rshift =
     (if rshift = 0 then Inr (word_of_int (sint a * sint b))
      else if rshift < 0 then Inl UndefinedBehaviour
      else if sint a = - (2 ^ 31) \<and> sint b = - (2 ^ 31) then Inr (word_of_int (2 ^ 63 - 1))
      else Inr (word_of_int ((sint a * sint b + 2 ^ nat (rshift - 1)) div 2 ^ nat rshift)))"

text \<open>
  Rounding to the nearest integer with a tie going away from zero, as the spec words the
  rounding of the real-multiplier path. It is not part of the header.
\<close>

definition round_half_away :: "rat \<Rightarrow> int" where
  "round_half_away x = (if 0 \<le> x then \<lfloor>x + 1 / 2\<rfloor> else \<lceil>x - 1 / 2\<rceil>)"

section \<open>Properties of the clamp primitive\<close>

text \<open>The scenario \<^verbatim>\<open>clamp(300, precision=8, is_signed=false)\<close> of the spec.\<close>

lemma clamp_u8_300: "clamp U8 300 8 False = Inr 255"
  by (simp add: clamp_def clamp_min_def clamp_max_def shift_1LL_def and_then_def to_int32_def
      lowest_def highest_def assert_operand_def convert_def)

lemma to_int32_id: "- (2 ^ 31) \<le> v \<Longrightarrow> v < 2 ^ 31 \<Longrightarrow> to_int32 v = v"
  unfolding to_int32_def by (rule signed_take_bit_int_eq_self) simp_all

lemma convert_id: "in_range T v \<Longrightarrow> convert T v = v"
  unfolding in_range_def convert_def lowest_def highest_def
  by (cases T) (simp_all add: signed_take_bit_int_eq_self take_bit_int_eq_self)

lemma pow2_le_31: "k \<le> 31 \<Longrightarrow> (2::int) ^ k \<le> 2 ^ 31"
  by (rule power_increasing) simp_all

lemma shift_1LL_ok: "0 \<le> n \<Longrightarrow> n \<le> 62 \<Longrightarrow> shift_1LL n = Inr (2 ^ nat n)"
  by (simp add: shift_1LL_def)

lemma clamp_bounds_signed:
  assumes "1 \<le> p" "p \<le> 32"
  shows "clamp_min p True = Inr (lowest_code p True)"
    and "clamp_max p True = Inr (highest_code p True)"
  using assms by (simp_all add: clamp_min_def clamp_max_def shift_1LL_ok and_then_def
      lowest_code_def highest_code_def)

lemma clamp_bounds_unsigned:
  assumes "0 \<le> p" "p \<le> 62"
  shows "clamp_min p False = Inr (lowest_code p False)"
    and "clamp_max p False = Inr (highest_code p False)"
  using assms by (simp_all add: clamp_min_def clamp_max_def shift_1LL_ok and_then_def
      lowest_code_def highest_code_def)

text \<open>
  The bounds fit the \<^verbatim>\<open>std::int32_t\<close> locals for every precision from 1 to 32, except
  the upper bound of the unsigned precision 32.
\<close>

lemma code_bounds_int32:
  assumes "1 \<le> p" "p \<le> 32" "is_signed \<or> p \<le> 31"
  shows "- (2 ^ 31) \<le> lowest_code p is_signed" "lowest_code p is_signed \<le> 0"
    "0 \<le> highest_code p is_signed" "highest_code p is_signed < 2 ^ 31"
proof -
  have a: "(2::int) ^ nat (p - 1) \<le> 2 ^ 31"
    using assms by (intro pow2_le_31) simp
  have b: "\<not> is_signed \<Longrightarrow> (2::int) ^ nat p \<le> 2 ^ 31"
    using assms by (intro pow2_le_31) auto
  have c: "(1::int) \<le> 2 ^ nat (p - 1)" "(1::int) \<le> 2 ^ nat p"
    by simp_all
  show "- (2 ^ 31) \<le> lowest_code p is_signed" "lowest_code p is_signed \<le> 0"
    "0 \<le> highest_code p is_signed" "highest_code p is_signed < 2 ^ 31"
    using a b c by (auto simp: lowest_code_def highest_code_def)
qed

text \<open>
  Where the bounds fit the locals and the destination type, \<^verbatim>\<open>clamp\<close> saturates: no
  assertion fails, nothing is undefined and the conversion to \<^verbatim>\<open>T2\<close> changes nothing.
\<close>

lemma clamp_saturates:
  assumes p: "1 \<le> p" "p \<le> 32" "is_signed \<or> p \<le> 31"
    and T: "lowest T \<le> lowest_code p is_signed" "highest_code p is_signed \<le> highest T"
  shows "clamp T src p is_signed =
    Inr (min (max (sint src) (lowest_code p is_signed)) (highest_code p is_signed))"
proof -
  let ?lo = "lowest_code p is_signed" and ?hi = "highest_code p is_signed"
  note b = code_bounds_int32 [OF p]
  have mn: "clamp_min p is_signed = Inr ?lo" and mx: "clamp_max p is_signed = Inr ?hi"
    using p clamp_bounds_signed [of p] clamp_bounds_unsigned [of p] by (cases is_signed; simp)+
  have lo32: "to_int32 ?lo = ?lo" and hi32: "to_int32 ?hi = ?hi"
    using b by (simp_all add: to_int32_id)
  have alo: "assert_operand T ?lo = ?lo"
  proof (cases "T = U32")
    case True
    with T(1) have "0 \<le> ?lo" by (simp add: lowest_def)
    with b(1,2) True show ?thesis by (simp add: assert_operand_def take_bit_int_eq_self)
  next
    case False
    then show ?thesis by (simp add: assert_operand_def)
  qed
  have ahi: "assert_operand T ?hi = ?hi"
    using b(3,4) by (simp add: assert_operand_def take_bit_int_eq_self)
  have "in_range T (min (max (sint src) ?lo) ?hi)"
    using T b by (auto simp: in_range_def)
  then have cv: "convert T (min (max (sint src) ?lo) ?hi) = min (max (sint src) ?lo) ?hi"
    by (rule convert_id)
  have s63: "- (2 ^ 63) \<le> ?lo" "?hi \<le> 2 ^ 63 - 1"
    using b by simp_all
  show ?thesis
    unfolding clamp_def mn mx and_then_def
    using T s63 by (simp add: Let_def lo32 hi32 alo ahi cv)
qed

text \<open>
  C1. The claim: for every precision from 1 to 32 and either signedness, with types that
  can represent the bounds, \<^verbatim>\<open>clamp\<close> returns \<open>min (max src lo) hi\<close> and never wraps.
  For the unsigned precision 32 with \<^verbatim>\<open>T2 = std::uint32_t\<close> the destination type holds
  both bounds, \<open>0\<close> and \<open>2^32 - 1\<close>, and the claim asks for \<open>5\<close> at \<open>src = 5\<close>. The upper
  bound is stored in a \<^verbatim>\<open>std::int32_t\<close>, where it becomes \<open>-1\<close>; no assertion fails
  and the call returns \<open>2^32 - 1\<close>.
\<close>

theorem clamp_unsigned_32_bits:
  "lowest U32 \<le> lowest_code 32 False \<and> highest_code 32 False \<le> highest U32 \<and>
   min (max (sint (5 :: 64 word)) (lowest_code 32 False)) (highest_code 32 False) = 5 \<and>
   clamp U32 5 32 False = Inr 4294967295"
  by (simp add: clamp_def clamp_min_def clamp_max_def shift_1LL_def and_then_def to_int32_def
      lowest_def highest_def assert_operand_def convert_def lowest_code_def highest_code_def
      mask_eq_exp_minus_1)

lemma lowest_le_0: "lowest T \<le> 0"
  by (simp add: lowest_def)

text \<open>
  With the unsigned flag and a precision from 1 to 31, \<^verbatim>\<open>clamp\<close> saturates to
  \<open>[0, 2 ^ precision - 1]\<close> when the destination type can hold the upper bound, whatever
  the signedness of the type; when it cannot, the last assertion fails.
\<close>

lemma unsigned_codes: "lowest_code p False = 0" "highest_code p False = 2 ^ nat p - 1"
  by (simp_all add: lowest_code_def highest_code_def)

lemma clamp_unsigned_saturates:
  assumes p: "1 \<le> p" "p \<le> 31" and T: "2 ^ nat p - 1 \<le> highest T"
  shows "clamp T q p False = Inr (min (max (sint q) 0) (2 ^ nat p - 1))"
proof -
  have p': "1 \<le> p" "p \<le> 32" "False \<or> p \<le> 31" using p by simp_all
  have "clamp T q p False = Inr (min (max (sint q) (lowest_code p False)) (highest_code p False))"
    by (rule clamp_saturates [OF p']) (simp_all add: unsigned_codes lowest_le_0 T)
  then show ?thesis by (simp only: unsigned_codes)
qed

lemma clamp_unsigned_narrow:
  assumes p: "1 \<le> p" "p \<le> 31" and T: "\<not> 2 ^ nat p - 1 \<le> highest T"
  shows "clamp T q p False = Inl AssertionFailed"
proof -
  have p': "1 \<le> p" "p \<le> 32" "False \<or> p \<le> 31" using p by simp_all
  note b = code_bounds_int32 [OF p']
  have n: "\<not> highest_code p False \<le> highest T" using T by (simp add: unsigned_codes)
  have "T \<noteq> U32" using n b(4) by (auto simp: highest_def)
  then have "assert_operand T (highest_code p False) = highest_code p False"
    by (simp add: assert_operand_def)
  then show ?thesis
    using n p clamp_bounds_unsigned [of p] b
    by (simp add: clamp_def and_then_def Let_def to_int32_id unsigned_codes(1))
qed

lemma clamp_unsigned:
  assumes p: "1 \<le> p" "p \<le> 31"
  shows "clamp T q p False =
    (if 2 ^ nat p - 1 \<le> highest T then Inr (min (max (sint q) 0) (2 ^ nat p - 1))
     else Inl AssertionFailed)"
  using clamp_unsigned_saturates [OF p, of T q] clamp_unsigned_narrow [OF p, of T q]
  by (cases "2 ^ nat p - 1 \<le> highest T") simp_all

section \<open>Properties of the 64-bit sum\<close>

lemma sint_scast_zp: "sint (scast (zp :: 32 word) :: 64 word) = sint zp"
  by (simp add: sint_up_scast is_up)

lemma sint_word_of_int_64:
  assumes "- (2 ^ 63) \<le> k" "k < 2 ^ 63"
  shows "sint (word_of_int k :: 64 word) = k"
proof -
  have "sint (word_of_int k :: 64 word) = signed_take_bit (LENGTH(64) - 1) k"
    by (rule sint_sbintrunc')
  also have "\<dots> = k"
    using assms by (intro signed_take_bit_int_eq_self) simp_all
  finally show ?thesis .
qed

text \<open>A sum that is a 64-bit value is computed exactly.\<close>

lemma add_int64_exact:
  assumes "- (2 ^ 63) \<le> sint a + sint b" "sint a + sint b < 2 ^ 63"
  shows "add_int64 a b = Inr (word_of_int (sint a + sint b))"
proof -
  have "a + b = word_of_int (sint a) + word_of_int (sint b)"
    by simp
  also have "\<dots> = word_of_int (sint a + sint b)"
    by (simp only: of_int_add)
  finally have "a + b = word_of_int (sint a + sint b)" .
  then show ?thesis
    unfolding add_int64_def using assms by (simp only: if_True simp_thms)
qed

text \<open>The sum of a zero point and a 64-bit value.\<close>

lemma add_zero_point:
  assumes "- (2 ^ 63) \<le> sint (zp :: 32 word) + sint (m :: 64 word)" "sint zp + sint m < 2 ^ 63"
  shows "add_int64 (scast zp) m = Inr (word_of_int (sint zp + sint m))"
    and "sint (word_of_int (sint zp + sint m) :: 64 word) = sint zp + sint m"
proof -
  have "add_int64 (scast zp) m = Inr (word_of_int (sint (scast zp :: 64 word) + sint m))"
    by (rule add_int64_exact) (simp_all only: sint_scast_zp assms)
  then show "add_int64 (scast zp) m = Inr (word_of_int (sint zp + sint m))"
    by (simp only: sint_scast_zp)
  show "sint (word_of_int (sint zp + sint m) :: 64 word) = sint zp + sint m"
    using assms by (rule sint_word_of_int_64)
qed

section \<open>Properties of the requantizers\<close>

text \<open>
  C4, as claimed: for every source, zero point, multiplier and shift the fixed-point
  \<^verbatim>\<open>Requantize\<close> returns \<^verbatim>\<open>clamp\<close> of the sum of the zero point and the result of
  \<^verbatim>\<open>SaturatingRoundingMulWithShift\<close>. The sum is made in \<^verbatim>\<open>std::int64_t\<close>, where an
  overflow is undefined. With both operands \<open>-2^31\<close> and the shift 1 the product
  saturates to \<open>2^63 - 1\<close>; the zero point 1 makes the sum \<open>2^63\<close>, which the claim
  clamps to 255 at the unsigned precision 8 and which the code cannot compute.
\<close>

theorem requantize_fixed_sum_overflows:
  "SaturatingRoundingMulWithShift (- 2147483648) (- 2147483648) 1 = Inr 9223372036854775807 \<and>
   Requantize_fixed SaturatingRoundingMulWithShift U8 (- 2147483648) 1 (- 2147483648) 1 8 False
     = Inl UndefinedBehaviour \<and>
   min (max (sint (1 :: 32 word) + sint (9223372036854775807 :: 64 word)) (lowest_code 8 False))
     (highest_code 8 False) = 255"
  by (simp add: SaturatingRoundingMulWithShift_def Requantize_fixed_def and_then_def add_int64_def
      lowest_code_def highest_code_def)

text \<open>
  C4, amended: whenever \<^verbatim>\<open>SaturatingRoundingMulWithShift\<close> returns a value \<open>m\<close> and the
  sum of the zero point and \<open>m\<close> is a 64-bit value, the fixed-point \<^verbatim>\<open>Requantize\<close>
  returns \<^verbatim>\<open>clamp\<close> of that sum, for every precision and signedness. The sum is the
  sum of the two integers: it reaches \<^verbatim>\<open>clamp\<close> unchanged, with no reduction to 32
  bits.
\<close>

theorem requantize_fixed_sum:
  assumes "srmws src mult rshift = Inr m"
    and "- (2 ^ 63) \<le> sint zp + sint m" and "sint zp + sint m < 2 ^ 63"
  shows "Requantize_fixed srmws T src zp mult rshift p is_signed =
           clamp T (word_of_int (sint zp + sint m)) p is_signed \<and>
         sint (word_of_int (sint zp + sint m) :: 64 word) = sint zp + sint m"
proof -
  have "add_int64 (scast zp) m = Inr (word_of_int (sint (scast zp :: 64 word) + sint m))"
    by (rule add_int64_exact) (simp_all only: sint_scast_zp assms)
  then have "add_int64 (scast zp) m = Inr (word_of_int (sint zp + sint m))"
    by (simp only: sint_scast_zp)
  then have "Requantize_fixed srmws T src zp mult rshift p is_signed =
           clamp T (word_of_int (sint zp + sint m)) p is_signed"
    unfolding Requantize_fixed_def and_then_def assms(1) by (simp only: sum.case)
  moreover have "sint (word_of_int (sint zp + sint m) :: 64 word) = sint zp + sint m"
    using assms(2,3) by (rule sint_word_of_int_64)
  ultimately show ?thesis by (rule conjI)
qed

text \<open>
  The source 100, the multiplier 200 and the shift 10 give the product 20; with the zero
  point 3 the sum 23 is returned at the unsigned precision 8. The zero point
  \<open>2 ^ 31 - 1\<close> and the product \<open>1\<close> have the sum \<open>2 ^ 31\<close>, which is not a 32-bit
  value; it is clamped to \<open>65535\<close> at the unsigned precision 16.
\<close>

theorem requantize_fixed_sum_witness:
  "Requantize_fixed SaturatingRoundingMulWithShift U8 100 3 200 10 8 False = Inr 23 \<and>
   Requantize_fixed (\<lambda>a b s. Inr 1) U16 7 2147483647 3 0 16 False = Inr 65535 \<and>
   sint (word_of_int (sint (2147483647 :: 32 word) + sint (1 :: 64 word)) :: 64 word)
     = 2147483648"
proof -
  have m: "SaturatingRoundingMulWithShift 100 200 10 = Inr 20"
    by (simp add: SaturatingRoundingMulWithShift_def)
  have c1: "clamp U8 (word_of_int (sint (3 :: 32 word) + sint (20 :: 64 word))) 8 False = Inr 23"
    by (simp add: clamp_def clamp_min_def clamp_max_def shift_1LL_def and_then_def to_int32_def
        lowest_def highest_def assert_operand_def convert_def)
  have h1: "- (2 ^ 63) \<le> sint (3 :: 32 word) + sint (20 :: 64 word)"
    "sint (3 :: 32 word) + sint (20 :: 64 word) < 2 ^ 63"
    by simp_all
  have c: "clamp U16 (word_of_int (sint (2147483647 :: 32 word) + sint (1 :: 64 word))) 16 False
      = Inr 65535"
    by (simp add: clamp_def clamp_min_def clamp_max_def shift_1LL_def and_then_def to_int32_def
        lowest_def highest_def assert_operand_def convert_def)
  have h: "- (2 ^ 63) \<le> sint (2147483647 :: 32 word) + sint (1 :: 64 word)"
    "sint (2147483647 :: 32 word) + sint (1 :: 64 word) < 2 ^ 63"
    by simp_all
  show ?thesis
    using requantize_fixed_sum [of "\<lambda>a b s. Inr 1" 7 3 0 1 2147483647 U16 16 False, OF refl h] c
      requantize_fixed_sum [of SaturatingRoundingMulWithShift 100 200 10 20 3 U8 8 False, OF m h1] c1
    by simp
qed

section \<open>Properties of Dequantize\<close>

lemma in_range_narrow: "bits T \<le> 16 \<Longrightarrow> in_range T v \<Longrightarrow> - 32768 \<le> v \<and> v \<le> 65535"
  by (cases T) (simp_all add: in_range_def lowest_def highest_def)

text \<open>
  C10, as claimed: for a type of at most 16 bits and every \<^verbatim>\<open>std::int32_t\<close> zero point
  the subtraction cannot overflow. It does for the \<^verbatim>\<open>std::uint8_t\<close> value \<open>0\<close> and the
  zero point \<open>-2^31\<close>: the difference is \<open>2^31\<close>.
\<close>

theorem narrow_difference_overflows:
  "bits U8 \<le> 16 \<and> in_range U8 0 \<and>
   src_minus_zero_point U8 0 (- 2147483648) = Inl UndefinedBehaviour \<and>
   Dequantize U8 0 \<lparr>scale = Finite 1, zero_point = - 2147483648, precision = 8\<rparr>
     = Inl UndefinedBehaviour"
  by (simp add: src_minus_zero_point_def Dequantize_def and_then_def in_range_def lowest_def
      highest_def)

text \<open>
  C10, amended. The difference \<^verbatim>\<open>src - zero_point\<close> is made in 32-bit integer
  arithmetic. For a type of at most 16 bits it cannot overflow when the zero point lies
  between \<open>-2^31 + 65536\<close> and \<open>2^31 - 32768\<close>. For \<^verbatim>\<open>std::int32_t\<close> it can: the
  difference of \<open>2^31 - 1\<close> and \<open>-1\<close> is not a 32-bit value.
\<close>

theorem difference_int32_range:
  "(\<forall>T src zp. bits T \<le> 16 \<and> in_range T src \<and>
       - (2 ^ 31) + 65536 \<le> sint zp \<and> sint zp \<le> 2 ^ 31 - 32768 \<longrightarrow>
       - (2 ^ 31) \<le> src - sint zp \<and> src - sint zp < 2 ^ 31 \<and>
       src_minus_zero_point T src zp = Inr (src - sint zp)) \<and>
   in_range I32 (2 ^ 31 - 1) \<and>
   \<not> (2 ^ 31 - 1 - sint (- 1 :: 32 word) < 2 ^ 31) \<and>
   src_minus_zero_point I32 (2 ^ 31 - 1) (- 1) = Inl UndefinedBehaviour"
proof -
  have a: "- (2 ^ 31) \<le> src - sint zp \<and> src - sint zp < 2 ^ 31 \<and>
       src_minus_zero_point T src zp = Inr (src - sint zp)"
    if "bits T \<le> 16" "in_range T src" "- (2 ^ 31) + 65536 \<le> sint zp" "sint zp \<le> 2 ^ 31 - 32768"
    for T src and zp :: "32 word"
  proof -
    have "T \<noteq> U32" using that(1) by auto
    moreover have "- 32768 \<le> src \<and> src \<le> 65535"
      using that(1,2) by (rule in_range_narrow)
    ultimately show ?thesis
      using that(3,4) by (simp add: src_minus_zero_point_def)
  qed
  have b: "in_range I32 (2 ^ 31 - 1) \<and>
   \<not> (2 ^ 31 - 1 - sint (- 1 :: 32 word) < 2 ^ 31) \<and>
   src_minus_zero_point I32 (2 ^ 31 - 1) (- 1) = Inl UndefinedBehaviour"
    by (simp add: src_minus_zero_point_def in_range_def lowest_def highest_def)
  from a b show ?thesis by blast
qed

theorem difference_int32_range_witness:
  "bits U8 \<le> 16 \<and> in_range U8 200 \<and> - (2 ^ 31) + 65536 \<le> sint (128 :: 32 word) \<and>
   sint (128 :: 32 word) \<le> 2 ^ 31 - 32768 \<and> src_minus_zero_point U8 200 128 = Inr 72"
proof -
  have h: "bits U8 \<le> 16 \<and> in_range U8 200 \<and> - (2 ^ 31) + 65536 \<le> sint (128 :: 32 word) \<and>
   sint (128 :: 32 word) \<le> 2 ^ 31 - 32768"
    by (simp add: in_range_def lowest_def highest_def)
  from difference_int32_range have
    "bits U8 \<le> 16 \<and> in_range U8 200 \<and> - (2 ^ 31) + 65536 \<le> sint (128 :: 32 word) \<and>
     sint (128 :: 32 word) \<le> 2 ^ 31 - 32768 \<longrightarrow>
     src_minus_zero_point U8 200 128 = Inr (200 - sint (128 :: 32 word))"
    by blast
  with h show ?thesis by simp
qed

text \<open>
  C8, as claimed: \<^verbatim>\<open>Dequantize\<close> is \<open>scale * (q - zero_point)\<close> for every \<open>q\<close> of every
  type. For the \<^verbatim>\<open>std::uint32_t\<close> value \<open>5\<close>, the zero point \<open>10\<close> and the scale \<open>1\<close>
  that is \<open>-5\<close>; the code subtracts modulo \<open>2^32\<close> and returns \<open>4294967296\<close>. For the
  \<^verbatim>\<open>std::int32_t\<close> value \<open>2^31 - 1\<close> and the zero point \<open>-1\<close> the subtraction overflows.
\<close>

theorem dequantize_uint32_wraps:
  "in_range U32 5 \<and>
   Dequantize U32 5 \<lparr>scale = Finite 1, zero_point = 10, precision = 32\<rparr>
     = Inr (Finite 4294967296) \<and>
   fmul (Finite 1) (float_of_int (5 - sint (10 :: 32 word))) = Finite (- 5) \<and>
   in_range I32 2147483647 \<and>
   Dequantize I32 2147483647 \<lparr>scale = Finite 1, zero_point = - 1, precision = 32\<rparr>
     = Inl UndefinedBehaviour"
  by code_simp

text \<open>
  C8, amended. For every type other than \<^verbatim>\<open>std::uint32_t\<close> and every \<open>q\<close> whose
  difference with the zero point is a 32-bit value, \<^verbatim>\<open>Dequantize\<close> returns the
  \<^verbatim>\<open>float\<close> product of the scale and the difference: the difference is converted to
  \<^verbatim>\<open>float\<close> and multiplied, and the product is neither rounded to an integer nor
  clamped.
\<close>

theorem dequantize_is_scaled_difference:
  assumes "T \<noteq> U32"
    and "- (2 ^ 31) \<le> q - sint (zero_point qparams)"
    and "q - sint (zero_point qparams) < 2 ^ 31"
  shows "Dequantize T q qparams =
           Inr (fmul (scale qparams) (float_of_int (q - sint (zero_point qparams))))"
  using assms by (simp add: Dequantize_def src_minus_zero_point_def and_then_def)

text \<open>
  The value \<open>131\<close> at the zero point \<open>128\<close> and the scale \<open>1/2\<close> gives \<open>3/2\<close>, which is
  not an integer.
\<close>

theorem dequantize_is_scaled_difference_witness:
  "U8 \<noteq> U32 \<and>
   Dequantize U8 131 \<lparr>scale = Finite (1 / 2), zero_point = 128, precision = 8\<rparr>
     = Inr (Finite (3 / 2))"
proof -
  let ?qp = "\<lparr>scale = Finite (1 / 2), zero_point = 128, precision = 8\<rparr>"
  have d: "131 - sint (zero_point ?qp) = 3"
    by simp
  have f: "fmul (scale ?qp) (float_of_int 3) = Finite (3 / 2)"
    by code_simp
  have h: "U8 \<noteq> U32" "- (2 ^ 31) \<le> 131 - sint (zero_point ?qp)"
    "131 - sint (zero_point ?qp) < 2 ^ 31"
    by simp_all
  have "Dequantize U8 131 ?qp = Inr (Finite (3 / 2))"
    using dequantize_is_scaled_difference [OF h] by (simp only: d f)
  with h(1) show ?thesis by (rule conjI)
qed

section \<open>Properties of the rounding\<close>

lemma rne_low: "x - of_int \<lfloor>x\<rfloor> < 1 / 2 \<Longrightarrow> rne x = \<lfloor>x\<rfloor>"
  by (simp add: rne_def Let_def)

lemma rne_high: "1 / 2 < x - of_int \<lfloor>x\<rfloor> \<Longrightarrow> rne x = \<lfloor>x\<rfloor> + 1"
  by (simp add: rne_def Let_def)

lemma rne_tie: "x - of_int \<lfloor>x\<rfloor> = 1 / 2 \<Longrightarrow> rne x = (if even \<lfloor>x\<rfloor> then \<lfloor>x\<rfloor> else \<lfloor>x\<rfloor> + 1)"
  by (simp add: rne_def Let_def)

text \<open>\<open>rne\<close> gives a nearest integer, and the even one of the two at a tie.\<close>

lemma rne_nearest: "\<bar>of_int (rne x) - x\<bar> \<le> 1 / 2"
proof -
  have f: "of_int \<lfloor>x\<rfloor> \<le> x" "x < of_int \<lfloor>x\<rfloor> + 1" by linarith+
  consider "x - of_int \<lfloor>x\<rfloor> < 1 / 2" | "1 / 2 < x - of_int \<lfloor>x\<rfloor>" | "x - of_int \<lfloor>x\<rfloor> = 1 / 2"
    by linarith
  then show ?thesis
  proof cases
    case 1
    with f show ?thesis by (simp add: rne_low)
  next
    case 2
    with f show ?thesis by (simp add: rne_high)
  next
    case 3
    with f show ?thesis by (simp add: rne_tie)
  qed
qed

lemma rne_tie_even:
  assumes "\<bar>of_int (rne x) - x\<bar> = 1 / 2"
  shows "even (rne x)"
proof -
  have f: "of_int \<lfloor>x\<rfloor> \<le> x" "x < of_int \<lfloor>x\<rfloor> + 1" by linarith+
  consider "x - of_int \<lfloor>x\<rfloor> < 1 / 2" | "1 / 2 < x - of_int \<lfloor>x\<rfloor>" | "x - of_int \<lfloor>x\<rfloor> = 1 / 2"
    by linarith
  then show ?thesis
  proof cases
    case 1
    with f assms show ?thesis by (simp add: rne_low)
  next
    case 2
    with f assms show ?thesis by (simp add: rne_high)
  next
    case 3
    then show ?thesis by (simp add: rne_tie)
  qed
qed

lemma rne_of_int: "rne (of_int n) = n"
  by (simp add: rne_def)

lemma rne_0: "rne 0 = 0"
  using rne_of_int [of 0] by simp


lemma trunc_of_int: "trunc_toward_zero (of_int n) = n"
  by (simp add: trunc_toward_zero_def)

text \<open>
  For a finite \<open>t\<close> whose rounding is a 64-bit value, \<^verbatim>\<open>nearbyint\<close> followed by the
  conversion to \<^verbatim>\<open>std::int64_t\<close>, and \<^verbatim>\<open>lrintf\<close>, both give \<open>rne\<close> of the value.
\<close>

lemma to_int64_nearbyint:
  assumes "is_finite t" "- (2 ^ 63) \<le> rne (valof t)" "rne (valof t) < 2 ^ 63"
  shows "to_int64 (nearbyint t) = Inr (word_of_int (rne (valof t)))"
  using assms by (cases t) (simp_all add: is_finite_def trunc_of_int rne_0)

lemma lrintf_finite:
  assumes "is_finite t" "- (2 ^ 63) \<le> rne (valof t)" "rne (valof t) < 2 ^ 63"
  shows "lrintf t = Inr (word_of_int (rne (valof t)))"
  using assms by (cases t) (simp_all add: is_finite_def rne_0)

subsection \<open>The rounding to binary32\<close>

lemma round_f32_examples:
  "round_f32 (1 / 10) = Finite (13421773 / 134217728)"
  "round_f32 16777217 = Finite 16777216"
  "round_f32 16777219 = Finite 16777220"
  "round_f32 (2 ^ 128 - 2 ^ 103) = PInf"
  "round_f32 (2 ^ 128 - 2 ^ 103 - 1) = Finite (2 ^ 128 - 2 ^ 104)"
  "round_f32 (1 / 2 ^ 150) = Finite 0"
  "round_f32 (- 1 / 2 ^ 150) = NegZero"
  "round_f32 (3 / 2 ^ 150) = Finite (1 / 2 ^ 148)"
  by code_simp+



lemma pow2_pos: "0 < pow2 k"
  by (simp add: pow2_def)

lemma ulp_pos: "0 < ulp r"
  by (simp add: ulp_def pow2_pos)

text \<open>A finite result of the rounding is within half a unit in the last place.\<close>

lemma round_f32_error:
  assumes "round_f32 r = Finite v"
  shows "\<bar>v - r\<bar> \<le> ulp r / 2"
proof (cases "r = 0")
  case True
  with assms have "v = 0" by (simp add: round_f32_def)
  with True ulp_pos [of r] show ?thesis by simp
next
  case False
  let ?u = "ulp r"
  from assms False have v: "v = of_int (rne (r / ?u)) * ?u"
    by (auto simp: round_f32_def Let_def split: if_splits)
  have u: "0 < ?u" by (rule ulp_pos)
  then have "v - r = (of_int (rne (r / ?u)) - r / ?u) * ?u"
    by (simp add: v algebra_simps)
  then have "\<bar>v - r\<bar> = \<bar>of_int (rne (r / ?u)) - r / ?u\<bar> * ?u"
    using u by (simp add: abs_mult)
  also have "\<dots> \<le> (1 / 2) * ?u"
    using rne_nearest [of "r / ?u"] u by (intro mult_right_mono) simp_all
  finally show ?thesis by simp
qed





text \<open>
  The error of one rounding. A result below \<open>2 ^ 128\<close> in magnitude is finite; it
  differs from the exact value by at most the relative error \<open>2 ^ -24\<close>, or by
  \<open>2 ^ -150\<close> below the normal range.
\<close>

lemma pow2_powi: "pow2 k = 2 powi k"
  by (simp add: pow2_def power_int_def inverse_eq_divide power_one_over)


lemma pow2_mono: "a \<le> b \<Longrightarrow> pow2 a \<le> pow2 b"
  by (simp add: pow2_powi power_int_increasing)

lemma pow2_less_imp: "pow2 a < pow2 b \<Longrightarrow> a < b"
  using pow2_mono [of b a] by (cases "a < b") simp_all




















subsection \<open>Quantize\<close>

text \<open>
  C5, as claimed: for every \<open>x\<close> and every positive scale, \<^verbatim>\<open>Quantize\<close> rounds
  \<open>t = zero_point + x / scale\<close> and clamps the rounded 64-bit value. The \<^verbatim>\<open>float\<close>
  \<open>2 ^ 64\<close> at the scale \<open>1\<close> and the zero point \<open>0\<close> gives \<open>t = 2 ^ 64\<close>, which has no
  64-bit rounding: the conversion to \<^verbatim>\<open>std::int64_t\<close> is undefined and nothing is
  clamped.
\<close>

theorem quantize_huge_undefined:
  "round_f32 (2 ^ 64) = Finite (2 ^ 64) \<and>
   Quantize U8 (Finite (2 ^ 64)) 0 (Finite 1) 8 False = Inl UndefinedBehaviour"
  by code_simp

text \<open>
  C5, amended. Let \<open>t\<close> be the \<^verbatim>\<open>float\<close> sum of the zero point, converted to
  \<^verbatim>\<open>float\<close>, and of the \<^verbatim>\<open>float\<close> quotient of \<open>x\<close> by the scale. Whenever \<open>t\<close> is
  finite and its rounding is a 64-bit value, \<^verbatim>\<open>Quantize\<close> returns \<^verbatim>\<open>clamp\<close>, at the
  given precision and signedness and narrowed to \<^verbatim>\<open>T\<close>, of the integer nearest to
  \<open>t\<close>; a tie goes to the even integer (the default rounding mode of \<^verbatim>\<open>nearbyint\<close>).
\<close>

theorem quantize_rounds_then_clamps:
  assumes "fadd (float_of_int (sint zp)) (fdiv x scl) = t" and "is_finite t"
    and "- (2 ^ 63) \<le> rne (valof t)" and "rne (valof t) < 2 ^ 63"
  shows "Quantize T x zp scl p is_signed = clamp T (word_of_int (rne (valof t))) p is_signed \<and>
         \<bar>of_int (rne (valof t)) - valof t\<bar> \<le> 1 / 2 \<and>
         (\<bar>of_int (rne (valof t)) - valof t\<bar> = 1 / 2 \<longrightarrow> even (rne (valof t)))"
proof -
  have "to_int64 (nearbyint t) = Inr (word_of_int (rne (valof t)))"
    using assms(2-4) by (rule to_int64_nearbyint)
  then have "Quantize T x zp scl p is_signed = clamp T (word_of_int (rne (valof t))) p is_signed"
    unfolding Quantize_def transformed_val_def assms(1) and_then_def by (simp only: sum.case)
  with rne_nearest [of "valof t"] rne_tie_even [of "valof t"] show ?thesis
    by blast
qed

text \<open>
  With the zero point 3 and the scale \<open>1/2\<close>, \<open>x = 5/4\<close> gives the tie \<open>t = 11/2\<close>,
  which is quantized to the even neighbour 6; \<open>x = -100\<close> gives \<open>t = -197\<close>, which is
  clamped to \<open>-128\<close> at the signed precision 8.
\<close>

theorem quantize_rounds_then_clamps_witness:
  "Quantize U8 (Finite (5 / 4)) 3 (Finite (1 / 2)) 8 False = Inr 6 \<and>
   fadd (float_of_int (sint (3 :: 32 word))) (fdiv (Finite (5 / 4)) (Finite (1 / 2)))
     = Finite (11 / 2) \<and>
   \<bar>of_int (rne (11 / 2)) - 11 / 2\<bar> = (1 / 2 :: rat) \<and> even (rne (11 / 2)) \<and>
   Quantize I8 (Finite (- 100)) 3 (Finite (1 / 2)) 8 True = Inr (- 128)"
proof -
  have t: "fadd (float_of_int (sint (3 :: 32 word))) (fdiv (Finite (5 / 4)) (Finite (1 / 2)))
      = Finite (11 / 2)"
    by code_simp
  have f: "is_finite (Finite (11 / 2))"
    by (simp add: is_finite_def)
  have r: "rne (valof (Finite (11 / 2))) = 6"
    by code_simp
  have b: "- (2 ^ 63) \<le> rne (valof (Finite (11 / 2)))" "rne (valof (Finite (11 / 2))) < 2 ^ 63"
    unfolding r by simp_all
  have c: "clamp U8 (word_of_int 6) 8 False = Inr 6"
    by code_simp
  have t': "fadd (float_of_int (sint (3 :: 32 word))) (fdiv (Finite (- 100)) (Finite (1 / 2)))
      = Finite (- 197)"
    by code_simp
  have f': "is_finite (Finite (- 197))"
    by (simp add: is_finite_def)
  have r': "rne (valof (Finite (- 197))) = - 197"
    by code_simp
  have b': "- (2 ^ 63) \<le> rne (valof (Finite (- 197)))" "rne (valof (Finite (- 197))) < 2 ^ 63"
    unfolding r' by simp_all
  have c': "clamp I8 (word_of_int (- 197)) 8 True = Inr (- 128)"
    by code_simp
  have v: "\<bar>of_int (rne (11 / 2)) - 11 / 2\<bar> = (1 / 2 :: rat)"
    by code_simp
  have e: "even (rne (11 / 2))"
    by code_simp
  from quantize_rounds_then_clamps [OF t f b, of U8 8 False]
  have q: "Quantize U8 (Finite (5 / 4)) 3 (Finite (1 / 2)) 8 False = Inr 6"
    unfolding r c by (rule conjunct1)
  from quantize_rounds_then_clamps [OF t' f' b', of I8 8 True]
  have q': "Quantize I8 (Finite (- 100)) 3 (Finite (1 / 2)) 8 True = Inr (- 128)"
    unfolding r' c' by (rule conjunct1)
  from q t v e q' show ?thesis by blast
qed

section \<open>Properties of the real-multiplier requantizer\<close>

text \<open>
  C2, as claimed: the product \<open>src * real_multiplier\<close> is rounded half away from zero.
  For \<open>src = 5\<close> and the multiplier \<open>1/2\<close> the product is the tie \<open>5/2\<close>: rounding half
  away from zero gives \<open>3\<close>, the code returns \<open>2\<close>. For \<open>src = 1\<close> and the multiplier
  \<open>2 ^ 64\<close> the product has no rounding in \<^verbatim>\<open>long\<close> and the result of \<^verbatim>\<open>lrintf\<close> is
  unspecified.
\<close>

theorem requantize_float_tie:
  "Requantize_float U8 5 0 (Finite (1 / 2)) 8 False = Inr 2 \<and>
   round_half_away (5 * (1 / 2)) = 3 \<and>
   clamp U8 (word_of_int (sint (0 :: 32 word) + round_half_away (5 * (1 / 2)))) 8 False = Inr 3 \<and>
   round_f32 (2 ^ 64) = Finite (2 ^ 64) \<and>
   Requantize_float U8 1 0 (Finite (2 ^ 64)) 8 False = Inl UnspecifiedResult"
  by code_simp

text \<open>
  C2, amended. Whenever the \<^verbatim>\<open>float\<close> product of \<open>src\<close> and the multiplier is finite,
  its rounding is a \<^verbatim>\<open>long\<close> and the sum with the zero point is a \<^verbatim>\<open>long\<close>, the
  real-multiplier \<^verbatim>\<open>Requantize\<close> returns \<^verbatim>\<open>clamp\<close> of the zero point plus the integer
  nearest to the product; a tie goes to the even integer (the default rounding mode of
  \<^verbatim>\<open>lrintf\<close>), not away from zero.
\<close>

theorem requantize_float_rounds_to_even:
  assumes "fmul (float_of_int (sint src)) mult = t" and "is_finite t"
    and "- (2 ^ 63) \<le> rne (valof t)" and "rne (valof t) < 2 ^ 63"
    and "- (2 ^ 63) \<le> sint zp + rne (valof t)" and "sint zp + rne (valof t) < 2 ^ 63"
  shows "Requantize_float T src zp mult p is_signed =
           clamp T (word_of_int (sint zp + rne (valof t))) p is_signed \<and>
         \<bar>of_int (rne (valof t)) - valof t\<bar> \<le> 1 / 2 \<and>
         (\<bar>of_int (rne (valof t)) - valof t\<bar> = 1 / 2 \<longrightarrow> even (rne (valof t)))"
proof -
  let ?r = "word_of_int (rne (valof t)) :: 64 word"
  have l: "lrintf t = Inr ?r"
    using assms(2-4) by (rule lrintf_finite)
  have sr: "sint ?r = rne (valof t)"
    using assms(3,4) by (rule sint_word_of_int_64)
  have "add_int64 (scast zp) ?r = Inr (word_of_int (sint (scast zp :: 64 word) + sint ?r))"
    by (rule add_int64_exact) (simp_all only: sint_scast_zp sr assms)
  then have a: "add_int64 (scast zp) ?r = Inr (word_of_int (sint zp + rne (valof t)))"
    by (simp only: sint_scast_zp sr)
  have "Requantize_float T src zp mult p is_signed =
           clamp T (word_of_int (sint zp + rne (valof t))) p is_signed"
    unfolding Requantize_float_def assms(1) l and_then_def by (simp only: sum.case a)
  with rne_nearest [of "valof t"] rne_tie_even [of "valof t"] show ?thesis
    by blast
qed

text \<open>The tie \<open>5/2\<close> is rounded to \<open>2\<close> and added to the zero point \<open>3\<close>.\<close>

theorem requantize_float_rounds_to_even_witness:
  "Requantize_float U8 5 3 (Finite (1 / 2)) 8 False = Inr 5 \<and>
   \<bar>of_int (rne (5 / 2)) - 5 / 2\<bar> = (1 / 2 :: rat) \<and> even (rne (5 / 2))"
proof -
  have t: "fmul (float_of_int (sint (5 :: 32 word))) (Finite (1 / 2)) = Finite (5 / 2)"
    by code_simp
  have f: "is_finite (Finite (5 / 2))"
    by (simp add: is_finite_def)
  have r: "rne (valof (Finite (5 / 2))) = 2"
    by code_simp
  have z: "sint (3 :: 32 word) = 3"
    by simp
  have b: "- (2 ^ 63) \<le> rne (valof (Finite (5 / 2)))" "rne (valof (Finite (5 / 2))) < 2 ^ 63"
    "- (2 ^ 63) \<le> sint (3 :: 32 word) + rne (valof (Finite (5 / 2)))"
    "sint (3 :: 32 word) + rne (valof (Finite (5 / 2))) < 2 ^ 63"
    unfolding r z by simp_all
  have c: "clamp U8 (word_of_int (3 + 2)) 8 False = Inr 5"
    by code_simp
  have v: "\<bar>of_int (rne (5 / 2)) - 5 / 2\<bar> = (1 / 2 :: rat)"
    by code_simp
  have e: "even (rne (5 / 2))"
    by code_simp
  from requantize_float_rounds_to_even [OF t f b, of U8 8 False]
  have "Requantize_float U8 5 3 (Finite (1 / 2)) 8 False = Inr 5"
    unfolding r z c by (rule conjunct1)
  with v e show ?thesis by blast
qed

section \<open>The requantizers taking the parameters as a structure\<close>

text \<open>
  C6, as claimed: for every \<^verbatim>\<open>RequantizationParams\<close> the two wrappers clamp to the unsigned
  bounds \<open>[0, 2 ^ precision - 1]\<close>. At the precision 32 the upper bound does not fit the
  \<^verbatim>\<open>std::int32_t\<close> local of \<^verbatim>\<open>clamp\<close>: for the sums 23 and 5, which lie between the
  claimed bounds, both wrappers return \<open>2^32 - 1\<close> with \<^verbatim>\<open>T = std::uint32_t\<close> and \<open>-1\<close>
  with \<^verbatim>\<open>T = std::int8_t\<close>. At the precision 64 the shift that computes the upper bound
  is undefined.
\<close>

theorem requantize_wrappers_every_precision:
  "RequantizeFixedPoint SaturatingRoundingMulWithShift U32 100
     \<lparr>real_multiplier = Finite (1 / 2), multiplier = 200, right_shift = 10,
      target_qparams = \<lparr>scale = Finite 1, zero_point = 3, precision = 32\<rparr>\<rparr> = Inr 4294967295 \<and>
   SaturatingRoundingMulWithShift 100 200 10 = Inr 20 \<and>
   min (max (sint (3 :: 32 word) + sint (20 :: 64 word)) 0) (2 ^ nat 32 - 1) = 23 \<and>
   Requantize_params U32 5
     \<lparr>real_multiplier = Finite (1 / 2), multiplier = 200, right_shift = 10,
      target_qparams = \<lparr>scale = Finite 1, zero_point = 3, precision = 32\<rparr>\<rparr> = Inr 4294967295 \<and>
   lrintf (fmul (float_of_int (sint (5 :: 32 word))) (Finite (1 / 2))) = Inr 2 \<and>
   min (max (sint (3 :: 32 word) + sint (2 :: 64 word)) 0) (2 ^ nat 32 - 1) = 5 \<and>
   RequantizeFixedPoint SaturatingRoundingMulWithShift I8 100
     \<lparr>real_multiplier = Finite (1 / 2), multiplier = 200, right_shift = 10,
      target_qparams = \<lparr>scale = Finite 1, zero_point = 3, precision = 32\<rparr>\<rparr> = Inr (- 1) \<and>
   Requantize_params I8 5
     \<lparr>real_multiplier = Finite (1 / 2), multiplier = 200, right_shift = 10,
      target_qparams = \<lparr>scale = Finite 1, zero_point = 3, precision = 32\<rparr>\<rparr> = Inr (- 1) \<and>
   RequantizeFixedPoint SaturatingRoundingMulWithShift U8 100
     \<lparr>real_multiplier = Finite (1 / 2), multiplier = 200, right_shift = 10,
      target_qparams = \<lparr>scale = Finite 1, zero_point = 3, precision = 64\<rparr>\<rparr>
     = Inl UndefinedBehaviour \<and>
   Requantize_params U8 5
     \<lparr>real_multiplier = Finite (1 / 2), multiplier = 200, right_shift = 10,
      target_qparams = \<lparr>scale = Finite 1, zero_point = 3, precision = 64\<rparr>\<rparr>
     = Inl UndefinedBehaviour"
  by code_simp

text \<open>
  C6, amended: for every source and every \<^verbatim>\<open>RequantizationParams\<close> with a target precision
  from 1 to 31, \<^verbatim>\<open>RequantizeFixedPoint<T>(src, params)\<close> and
  \<^verbatim>\<open>Requantize<T>(src, params)\<close> clamp with \<^verbatim>\<open>result_is_signed = false\<close> and look at
  the signedness of \<^verbatim>\<open>T\<close> nowhere. Whenever the 64-bit sum of the zero point and the
  rounded product is defined, they return that sum saturated to
  \<open>[0, 2 ^ precision - 1]\<close> if \<^verbatim>\<open>T\<close> can hold \<open>2 ^ precision - 1\<close>, be \<^verbatim>\<open>T\<close> signed or
  not; if it cannot, the assertion of \<^verbatim>\<open>clamp\<close> on the upper bound fails.
\<close>

theorem requantize_wrappers_unsigned:
  assumes p: "1 \<le> precision (target_qparams params)" "precision (target_qparams params) \<le> 31"
  shows "(srmws src (multiplier params) (right_shift params) = Inr m \<and>
      - (2 ^ 63) \<le> sint (zero_point (target_qparams params)) + sint m \<and>
      sint (zero_point (target_qparams params)) + sint m < 2 ^ 63 \<longrightarrow>
      RequantizeFixedPoint srmws T src params =
        (if 2 ^ nat (precision (target_qparams params)) - 1 \<le> highest T
         then Inr (min (max (sint (zero_point (target_qparams params)) + sint m) 0)
           (2 ^ nat (precision (target_qparams params)) - 1))
         else Inl AssertionFailed)) \<and>
    (lrintf (fmul (float_of_int (sint src)) (real_multiplier params)) = Inr r \<and>
      - (2 ^ 63) \<le> sint (zero_point (target_qparams params)) + sint r \<and>
      sint (zero_point (target_qparams params)) + sint r < 2 ^ 63 \<longrightarrow>
      Requantize_params T src params =
        (if 2 ^ nat (precision (target_qparams params)) - 1 \<le> highest T
         then Inr (min (max (sint (zero_point (target_qparams params)) + sint r) 0)
           (2 ^ nat (precision (target_qparams params)) - 1))
         else Inl AssertionFailed))"
proof -
  let ?zp = "zero_point (target_qparams params)" and ?p = "precision (target_qparams params)"
  have fixed: "RequantizeFixedPoint srmws T src params =
      (if 2 ^ nat ?p - 1 \<le> highest T then Inr (min (max (sint ?zp + sint m) 0) (2 ^ nat ?p - 1))
       else Inl AssertionFailed)"
    if m: "srmws src (multiplier params) (right_shift params) = Inr m"
      and ms: "- (2 ^ 63) \<le> sint ?zp + sint m" "sint ?zp + sint m < 2 ^ 63"
  proof -
    note a = add_zero_point [OF ms]
    have "RequantizeFixedPoint srmws T src params =
        clamp T (word_of_int (sint ?zp + sint m)) ?p False"
      unfolding RequantizeFixedPoint_def Requantize_fixed_def and_then_def m
      by (simp only: a(1) sum.case)
    then show ?thesis
      by (simp only: clamp_unsigned [OF p] a(2))
  qed
  have float: "Requantize_params T src params =
      (if 2 ^ nat ?p - 1 \<le> highest T then Inr (min (max (sint ?zp + sint r) 0) (2 ^ nat ?p - 1))
       else Inl AssertionFailed)"
    if r: "lrintf (fmul (float_of_int (sint src)) (real_multiplier params)) = Inr r"
      and rs: "- (2 ^ 63) \<le> sint ?zp + sint r" "sint ?zp + sint r < 2 ^ 63"
  proof -
    note b = add_zero_point [OF rs]
    have "Requantize_params T src params = clamp T (word_of_int (sint ?zp + sint r)) ?p False"
      unfolding Requantize_params_def Requantize_float_def and_then_def r
      by (simp only: b(1) sum.case)
    then show ?thesis
      by (simp only: clamp_unsigned [OF p] b(2))
  qed
  from fixed float show ?thesis by blast
qed

text \<open>
  With the signed type \<^verbatim>\<open>std::int8_t\<close> at the precision 7 and the zero point 80: the
  sums 100 and 130 give 100 and 127, where the signed bounds would give 63; the sums
  \<open>-115\<close> and \<open>-420\<close> give 0, where the signed bounds would give \<open>-64\<close>. At the
  precision 8 the type cannot hold 255 and the assertion fails.
\<close>

theorem requantize_wrappers_unsigned_witness:
  "RequantizeFixedPoint SaturatingRoundingMulWithShift I8 100
     \<lparr>real_multiplier = Finite (1 / 2), multiplier = 200, right_shift = 10,
      target_qparams = \<lparr>scale = Finite 1, zero_point = 80, precision = 7\<rparr>\<rparr> = Inr 100 \<and>
   Requantize_params I8 100
     \<lparr>real_multiplier = Finite (1 / 2), multiplier = 200, right_shift = 10,
      target_qparams = \<lparr>scale = Finite 1, zero_point = 80, precision = 7\<rparr>\<rparr> = Inr 127 \<and>
   RequantizeFixedPoint SaturatingRoundingMulWithShift I8 (- 1000)
     \<lparr>real_multiplier = Finite (1 / 2), multiplier = 200, right_shift = 10,
      target_qparams = \<lparr>scale = Finite 1, zero_point = 80, precision = 7\<rparr>\<rparr> = Inr 0 \<and>
   Requantize_params I8 (- 1000)
     \<lparr>real_multiplier = Finite (1 / 2), multiplier = 200, right_shift = 10,
      target_qparams = \<lparr>scale = Finite 1, zero_point = 80, precision = 7\<rparr>\<rparr> = Inr 0 \<and>
   RequantizeFixedPoint SaturatingRoundingMulWithShift I8 100
     \<lparr>real_multiplier = Finite (1 / 2), multiplier = 200, right_shift = 10,
      target_qparams = \<lparr>scale = Finite 1, zero_point = 80, precision = 8\<rparr>\<rparr>
     = Inl AssertionFailed \<and>
   Requantize_params I8 100
     \<lparr>real_multiplier = Finite (1 / 2), multiplier = 200, right_shift = 10,
      target_qparams = \<lparr>scale = Finite 1, zero_point = 80, precision = 8\<rparr>\<rparr>
     = Inl AssertionFailed"
proof -
  let ?P = "\<lambda>p. \<lparr>real_multiplier = Finite (1 / 2), multiplier = 200, right_shift = 10,
      target_qparams = \<lparr>scale = Finite 1, zero_point = 80, precision = p\<rparr>\<rparr>"
  have m1: "SaturatingRoundingMulWithShift 100 (multiplier (?P p)) (right_shift (?P p)) = Inr 20"
    for p by (simp add: SaturatingRoundingMulWithShift_def)
  have m2: "SaturatingRoundingMulWithShift (- 1000) (multiplier (?P p)) (right_shift (?P p))
      = Inr (- 195)"
    for p by (simp add: SaturatingRoundingMulWithShift_def)
  have r1: "lrintf (fmul (float_of_int (sint (100 :: 32 word))) (real_multiplier (?P p))) = Inr 50"
    for p unfolding RequantizationParams.simps by code_simp
  have r2: "lrintf (fmul (float_of_int (sint (- 1000 :: 32 word))) (real_multiplier (?P p)))
      = Inr (- 500)"
    for p unfolding RequantizationParams.simps by code_simp
  from requantize_wrappers_unsigned [where params = "?P 7" and T = I8 and src = 100
      and srmws = SaturatingRoundingMulWithShift and m = 20 and r = 50] m1 [of 7] r1 [of 7]
  have a: "RequantizeFixedPoint SaturatingRoundingMulWithShift I8 100 (?P 7) = Inr 100 \<and>
      Requantize_params I8 100 (?P 7) = Inr 127"
    by (simp add: highest_def)
  from requantize_wrappers_unsigned [where params = "?P 7" and T = I8 and src = "- 1000"
      and srmws = SaturatingRoundingMulWithShift and m = "- 195" and r = "- 500"]
    m2 [of 7] r2 [of 7]
  have b: "RequantizeFixedPoint SaturatingRoundingMulWithShift I8 (- 1000) (?P 7) = Inr 0 \<and>
      Requantize_params I8 (- 1000) (?P 7) = Inr 0"
    by (simp add: highest_def)
  from requantize_wrappers_unsigned [where params = "?P 8" and T = I8 and src = 100
      and srmws = SaturatingRoundingMulWithShift and m = 20 and r = 50] m1 [of 8] r1 [of 8]
  have c: "RequantizeFixedPoint SaturatingRoundingMulWithShift I8 100 (?P 8) = Inl AssertionFailed \<and>
      Requantize_params I8 100 (?P 8) = Inl AssertionFailed"
    by (simp add: highest_def)
  from a b c show ?thesis by blast
qed

section \<open>Properties of the bulk Dequantize\<close>

lemma Dequantize_loop_exit: "\<not> i < n \<Longrightarrow> Dequantize_loop T src dst n qp (i, st) = Inr (i, st)"
  by (simp add: Dequantize_loop.simps)

lemma Dequantize_loop_step:
  assumes "i < n" "st (src + i) = Some (IntCell v)" "Dequantize T v qp = Inr f"
    "st (dst + i) \<noteq> None"
  shows "Dequantize_loop T src dst n qp (i, st) =
         Dequantize_loop T src dst n qp (Suc i, st(dst + i \<mapsto> FloatCell f))"
  using assms by (subst Dequantize_loop.simps) auto

lemma Dequantize_error: "Dequantize T v qp = Inl e \<Longrightarrow> e = UndefinedBehaviour"
  by (auto simp: Dequantize_def src_minus_zero_point_def and_then_def split: if_splits)

text \<open>
  From the state \<open>(i, st)\<close>, with source cells that hold integers whose conversions are
  defined, destination cells that exist and no destination cell among the source cells,
  the loop runs to \<open>i = n\<close> and has written exactly the cells \<open>dst + i\<close> to
  \<open>dst + n - 1\<close>.
\<close>

lemma Dequantize_loop_runs:
  assumes "i \<le> n"
    and "\<And>j. i \<le> j \<Longrightarrow> j < n \<Longrightarrow> st (src + j) = Some (IntCell (v j))"
    and "\<And>j. i \<le> j \<Longrightarrow> j < n \<Longrightarrow> Dequantize T (v j) qp = Inr (f j)"
    and "\<And>j. i \<le> j \<Longrightarrow> j < n \<Longrightarrow> st (dst + j) \<noteq> None"
    and "\<And>j k. i \<le> j \<Longrightarrow> j < n \<Longrightarrow> i \<le> k \<Longrightarrow> k < n \<Longrightarrow> src + j \<noteq> dst + k"
  shows "Dequantize_loop T src dst n qp (i, st) =
         Inr (n, \<lambda>a. if dst + i \<le> a \<and> a < dst + n then Some (FloatCell (f (a - dst))) else st a)"
  using assms
proof (induction "n - i" arbitrary: i st)
  case 0
  then have "i = n" by simp
  then show ?case by (auto simp: Dequantize_loop_exit fun_eq_iff)
next
  case (Suc m)
  then have lt: "i < n" by simp
  let ?st = "st(dst + i \<mapsto> FloatCell (f i))"
  have step: "Dequantize_loop T src dst n qp (i, st) = Dequantize_loop T src dst n qp (Suc i, ?st)"
    using lt Suc.prems(2-4) [of i] by (intro Dequantize_loop_step) simp_all
  have "Dequantize_loop T src dst n qp (Suc i, ?st) =
         Inr (n, \<lambda>a. if dst + Suc i \<le> a \<and> a < dst + n then Some (FloatCell (f (a - dst))) else ?st a)"
  proof (rule Suc.hyps(1))
    show "m = n - Suc i" using Suc.hyps(2) by simp
    show "Suc i \<le> n" using lt by simp
    show "?st (src + j) = Some (IntCell (v j))" if "Suc i \<le> j" "j < n" for j
    proof -
      have "src + j \<noteq> dst + i" using Suc.prems(5) [of j i] that lt by simp
      then show ?thesis using Suc.prems(2) [of j] that by simp
    qed
    show "Dequantize T (v j) qp = Inr (f j)" if "Suc i \<le> j" "j < n" for j
      using Suc.prems(3) [of j] that by simp
    show "?st (dst + j) \<noteq> None" if "Suc i \<le> j" "j < n" for j
      using Suc.prems(4) [of j] that by simp
    show "src + j \<noteq> dst + k" if "Suc i \<le> j" "j < n" "Suc i \<le> k" "k < n" for j k
      using Suc.prems(5) [of j k] that by simp
  qed
  moreover have "(\<lambda>a. if dst + Suc i \<le> a \<and> a < dst + n then Some (FloatCell (f (a - dst))) else ?st a)
      = (\<lambda>a. if dst + i \<le> a \<and> a < dst + n then Some (FloatCell (f (a - dst))) else st a)"
    using lt by (auto simp: fun_eq_iff)
  ultimately show ?case using step by simp
qed

text \<open>When the loop returns, it has made exactly \<open>n - i\<close> iterations.\<close>

lemma Dequantize_loop_count:
  assumes "Dequantize_loop T src dst n qp (i, st) = Inr (k, st')" "i \<le> n"
  shows "k = n"
  using assms
proof (induction "n - i" arbitrary: i st)
  case 0
  then show ?case by (simp add: Dequantize_loop_exit)
next
  case (Suc m)
  then have lt: "i < n" by simp
  from Suc.prems(1) lt obtain v f where
    "Dequantize_loop T src dst n qp (Suc i, st(dst + i \<mapsto> FloatCell f)) = Inr (k, st')"
    by (subst (asm) Dequantize_loop.simps)
      (auto split: option.splits cell.splits sum.splits if_splits)
  moreover have "m = n - Suc i" "Suc i \<le> n" using Suc.hyps(2) lt by simp_all
  ultimately show ?case using Suc.hyps(1) by blast
qed

text \<open>
  When the loop returns, every iteration from \<open>i\<close> to \<open>n - 1\<close> has been made: iteration
  \<open>j\<close> has read an integer from the cell \<open>src + j\<close>, which no earlier iteration had
  written, and has left its conversion in the cell \<open>dst + j\<close>; no other cell has changed.
\<close>

lemma Dequantize_loop_returns:
  assumes "Dequantize_loop T src dst n qp (i, st) = Inr (k, st')" "i \<le> n"
  shows "(\<forall>j. i \<le> j \<and> j < n \<longrightarrow>
            (\<exists>v f. st (src + j) = Some (IntCell v) \<and> Dequantize T v qp = Inr f \<and>
                   st' (dst + j) = Some (FloatCell f))) \<and>
         (\<forall>a. \<not> (dst + i \<le> a \<and> a < dst + n) \<longrightarrow> st' a = st a)"
  using assms
proof (induction "n - i" arbitrary: i st)
  case 0
  then have "i = n" by simp
  with "0.prems"(1) have "st' = st" by (simp add: Dequantize_loop_exit)
  with \<open>i = n\<close> show ?case by auto
next
  case (Suc m)
  then have lt: "i < n" by simp
  from Suc.prems(1) lt obtain v f where
    rd: "st (src + i) = Some (IntCell v)" and cv: "Dequantize T v qp = Inr f" and
    rec: "Dequantize_loop T src dst n qp (Suc i, st(dst + i \<mapsto> FloatCell f)) = Inr (k, st')"
    by (subst (asm) Dequantize_loop.simps)
      (auto split: option.splits cell.splits sum.splits if_splits)
  let ?st = "st(dst + i \<mapsto> FloatCell f)"
  have "m = n - Suc i" "Suc i \<le> n" using Suc.hyps(2) lt by simp_all
  from Suc.hyps(1) [OF this(1) rec this(2)]
  have ih1: "\<And>j. Suc i \<le> j \<Longrightarrow> j < n \<Longrightarrow>
      \<exists>v f. ?st (src + j) = Some (IntCell v) \<and> Dequantize T v qp = Inr f \<and>
            st' (dst + j) = Some (FloatCell f)"
    and ih2: "\<And>a. \<not> (dst + Suc i \<le> a \<and> a < dst + n) \<Longrightarrow> st' a = ?st a"
    by blast+
  have here: "st' (dst + i) = Some (FloatCell f)"
    using ih2 [of "dst + i"] by simp
  have "\<exists>v f. st (src + j) = Some (IntCell v) \<and> Dequantize T v qp = Inr f \<and>
      st' (dst + j) = Some (FloatCell f)" if j: "i \<le> j" "j < n" for j
  proof (cases "j = i")
    case True
    with rd cv here show ?thesis by blast
  next
    case False
    with j have "Suc i \<le> j" by simp
    from ih1 [OF this j(2)] obtain v' f' where
      a: "?st (src + j) = Some (IntCell v')" and b: "Dequantize T v' qp = Inr f'" and
      c: "st' (dst + j) = Some (FloatCell f')"
      by blast
    from a have "src + j \<noteq> dst + i" by (auto split: if_splits)
    with a have "st (src + j) = Some (IntCell v')" by simp
    with b c show ?thesis by blast
  qed
  moreover have "st' a = st a" if "\<not> (dst + i \<le> a \<and> a < dst + n)" for a
  proof -
    from that lt have "\<not> (dst + Suc i \<le> a \<and> a < dst + n)" "a \<noteq> dst + i" by auto
    with ih2 [of a] show ?thesis by simp
  qed
  ultimately show ?case by blast
qed

text \<open>
  A destination cell that does not exist is reached, unless the call has become undefined
  before: no iteration creates a cell.
\<close>

lemma Dequantize_loop_missing_cell:
  assumes "i \<le> j" "j < n" "st (dst + j) = None"
  shows "Dequantize_loop T src dst n qp (i, st) = Inl UndefinedBehaviour"
  using assms
proof (induction "j - i" arbitrary: i st)
  case 0
  then have lt: "i < n" and none: "st (dst + i) = None" by simp_all
  show ?case
    by (subst Dequantize_loop.simps)
      (auto split: option.splits cell.splits sum.splits dest: Dequantize_error simp: lt none)
next
  case (Suc m)
  then have lt: "i < j" by simp
  have rec: "Dequantize_loop T src dst n qp (Suc i, st(dst + i \<mapsto> FloatCell f)) = Inl UndefinedBehaviour"
    for f
  proof (rule Suc.hyps(1))
    show "m = j - Suc i" using Suc.hyps(2) by simp
    show "Suc i \<le> j" using lt by simp
    show "j < n" by fact
    show "(st(dst + i \<mapsto> FloatCell f)) (dst + j) = None"
      using lt Suc.prems(3) by simp
  qed
  have "i < n" using lt Suc.prems(2) by simp
  then show ?case
    by (subst Dequantize_loop.simps)
      (auto split: option.splits cell.splits sum.splits dest: Dequantize_error simp: rec)
qed

subsection \<open>The converted bound\<close>

lemma uint_scast_len: "uint (scast (len :: 32 word) :: 64 word) = sint len mod 2 ^ 64"
proof -
  have "(scast len :: 64 word) = word_of_int (sint len)"
    by simp
  then have "uint (scast len :: 64 word) = uint (word_of_int (sint len) :: 64 word)"
    by (simp only:)
  also have "\<dots> = take_bit LENGTH(64) (sint len)"
    by (rule uint_word_of_int_eq)
  finally show ?thesis by (simp add: take_bit_eq_mod)
qed

lemma sint_32_bounds: "- (2 ^ 31) \<le> sint (len :: 32 word)" "sint (len :: 32 word) < 2 ^ 31"
  using sint_ge [of len] sint_lt [of len] by simp_all

lemma loop_bound_nonneg: "0 \<le> sint len \<Longrightarrow> loop_bound len = nat (sint len)"
proof -
  assume "0 \<le> sint len"
  moreover have "sint len < 2 ^ 64" using sint_32_bounds(2) [of len] by simp
  ultimately have "sint len mod 2 ^ 64 = sint len" by simp
  then show ?thesis by (simp add: loop_bound_def unat_eq_nat_uint uint_scast_len)
qed

lemma loop_bound_negative: "sint len < 0 \<Longrightarrow> loop_bound len = nat (2 ^ 64 + sint len)"
proof -
  assume n: "sint len < 0"
  have "sint len mod 2 ^ 64 = (sint len + 2 ^ 64) mod 2 ^ 64" by simp
  also have "\<dots> = sint len + 2 ^ 64"
    using n sint_32_bounds(1) [of len] by (intro mod_pos_pos_trivial) simp_all
  finally show ?thesis by (simp add: loop_bound_def unat_eq_nat_uint uint_scast_len add.commute)
qed


text \<open>
  C7. For a length \<open>len \<ge> 0\<close>, source cells \<open>src[0..len)\<close> that hold integers \<open>v i\<close> whose
  conversions \<open>f i\<close> are defined, destination cells \<open>dst[0..len)\<close> that exist and do not
  overlap the source cells, the bulk \<^verbatim>\<open>Dequantize\<close> returns after \<open>len\<close> iterations,
  \<open>dst[i]\<close> holds \<^verbatim>\<open>Dequantize(src[i], qparams)\<close> for every \<open>i < len\<close>, a value that
  depends on \<open>src[i]\<close> and the parameters only, and every other cell of the store is as
  it was.
\<close>

theorem dequantize_bulk_is_a_map:
  assumes "0 \<le> sint len" and "n = nat (sint len)"
    and "\<forall>i<n. st (src + i) = Some (IntCell (v i))"
    and "\<forall>i<n. Dequantize T (v i) qparams = Inr (f i)"
    and "\<forall>i<n. st (dst + i) \<noteq> None"
    and "\<forall>i<n. \<forall>j<n. src + i \<noteq> dst + j"
  shows "\<exists>st'. Dequantize_bulk T src dst len qparams st = Inr (n, st') \<and>
           (\<forall>i<n. st' (dst + i) = Some (FloatCell (f i))) \<and>
           (\<forall>a. \<not> (dst \<le> a \<and> a < dst + n) \<longrightarrow> st' a = st a)"
proof -
  let ?st = "\<lambda>a. if dst + 0 \<le> a \<and> a < dst + n then Some (FloatCell (f (a - dst))) else st a"
  have "Dequantize_loop T src dst n qparams (0, st) = Inr (n, ?st)"
    using assms(3-6) by (intro Dequantize_loop_runs) auto
  then have "Dequantize_bulk T src dst len qparams st = Inr (n, ?st)"
    using assms(1,2) by (simp add: Dequantize_bulk_def loop_bound_nonneg)
  moreover have "\<forall>i<n. ?st (dst + i) = Some (FloatCell (f i))"
    by simp
  moreover have "\<forall>a. \<not> (dst \<le> a \<and> a < dst + n) \<longrightarrow> ?st a = st a"
    by simp
  ultimately show ?thesis by blast
qed

text \<open>
  Two \<^verbatim>\<open>std::uint8_t\<close> cells at the addresses 0 and 1, two \<^verbatim>\<open>float\<close> cells at 2
  and 3, nothing elsewhere.
\<close>

theorem dequantize_bulk_is_a_map_witness:
  "\<exists>st'. Dequantize_bulk U8 0 2 2 \<lparr>scale = Finite (1 / 2), zero_point = 128, precision = 8\<rparr>
       (\<lambda>a. if a < 2 then Some (IntCell (131 + int a))
            else if a < 4 then Some (FloatCell NaN) else None) = Inr (2, st') \<and>
     st' 2 = Some (FloatCell (Finite (3 / 2))) \<and> st' 3 = Some (FloatCell (Finite 2)) \<and>
     st' 0 = Some (IntCell 131) \<and> st' 1 = Some (IntCell 132) \<and> st' 4 = None"
proof -
  let ?qp = "\<lparr>scale = Finite (1 / 2), zero_point = 128, precision = 8\<rparr>"
  let ?st = "\<lambda>a::nat. if a < 2 then Some (IntCell (131 + int a))
            else if a < 4 then Some (FloatCell NaN) else None"
  let ?v = "\<lambda>i::nat. 131 + int i"
  let ?f = "\<lambda>i::nat. if i = 0 then Finite (3 / 2) else Finite 2"
  have d0: "Dequantize U8 131 ?qp = Inr (Finite (3 / 2))" by code_simp
  have d1: "Dequantize U8 132 ?qp = Inr (Finite 2)" by code_simp
  have two: "i < 2 \<longleftrightarrow> i = 0 \<or> i = 1" for i :: nat by auto
  have h1: "0 \<le> sint (2 :: 32 word)" by simp
  have h2: "(2 :: nat) = nat (sint (2 :: 32 word))" by simp
  have h3: "\<forall>i<2. ?st (0 + i) = Some (IntCell (?v i))" by simp
  have h4: "\<forall>i<2. Dequantize U8 (?v i) ?qp = Inr (?f i)" by (simp add: two d0 d1)
  have h5: "\<forall>i<2. ?st (2 + i) \<noteq> None" by simp
  have h6: "\<forall>i<2. \<forall>j<2. (0 :: nat) + i \<noteq> 2 + j" by simp
  from dequantize_bulk_is_a_map [OF h1 h2 h3 h4 h5 h6]
  obtain st' where r: "Dequantize_bulk U8 0 2 2 ?qp ?st = Inr (2, st')"
    and w: "\<forall>i<2. st' (2 + i) = Some (FloatCell (?f i))"
    and fr: "\<forall>a. \<not> (2 \<le> a \<and> a < 2 + 2) \<longrightarrow> st' a = ?st a"
    by blast
  have a: "st' 2 = Some (FloatCell (Finite (3 / 2)))" "st' 3 = Some (FloatCell (Finite 2))"
    using w [rule_format, of 0] w [rule_format, of 1] by simp_all
  have b: "st' 0 = Some (IntCell 131)" "st' 1 = Some (IntCell 132)" "st' 4 = None"
    using fr by simp_all
  from r a b show ?thesis by blast
qed

text \<open>
  C9. The loop guard compares the \<^verbatim>\<open>std::size_t\<close> index with the \<^verbatim>\<open>int\<close> \<open>len\<close>
  converted to \<^verbatim>\<open>std::size_t\<close>, the bound. The iterations are counted by the cells
  they touch: a call that returns has, for every \<open>j\<close> below the bound, read an integer from
  \<open>src[j]\<close> and left its conversion in \<open>dst[j]\<close>, and has changed no cell outside
  \<open>dst[0..bound)\<close>. For \<open>len < 0\<close> the bound is at least \<open>2^64 - 2^31\<close>, so the loop
  does not run zero times, and the call is undefined as soon as one of the first
  \<open>2^64 - 2^31\<close> destination cells does not exist. For \<open>len \<ge> 0\<close> the bound is \<open>len\<close>,
  and with valid buffers the call returns: it has written the \<open>len\<close> cells \<open>dst[0..len)\<close>
  and no other.
\<close>

theorem dequantize_bulk_iterations:
  "(\<forall>k st'. Dequantize_bulk T src dst len qparams st = Inr (k, st') \<longrightarrow>
      k = loop_bound len \<and>
      (\<forall>j < loop_bound len. \<exists>v f. st (src + j) = Some (IntCell v) \<and>
         Dequantize T v qparams = Inr f \<and> st' (dst + j) = Some (FloatCell f)) \<and>
      (\<forall>a. \<not> (dst \<le> a \<and> a < dst + loop_bound len) \<longrightarrow> st' a = st a)) \<and>
   (sint len < 0 \<longrightarrow>
      2 ^ 64 - 2 ^ 31 \<le> loop_bound len \<and>
      ((\<exists>j < 2 ^ 64 - 2 ^ 31. st (dst + j) = None) \<longrightarrow>
         Dequantize_bulk T src dst len qparams st = Inl UndefinedBehaviour)) \<and>
   (0 \<le> sint len \<and>
      (\<forall>i < nat (sint len). st (src + i) = Some (IntCell (v i))) \<and>
      (\<forall>i < nat (sint len). Dequantize T (v i) qparams = Inr (f i)) \<and>
      (\<forall>i < nat (sint len). st (dst + i) \<noteq> None) \<and>
      (\<forall>i < nat (sint len). \<forall>j < nat (sint len). src + i \<noteq> dst + j) \<longrightarrow>
      loop_bound len = nat (sint len) \<and>
      (\<exists>st'. Dequantize_bulk T src dst len qparams st = Inr (nat (sint len), st') \<and>
         (\<forall>i < nat (sint len). st' (dst + i) = Some (FloatCell (f i))) \<and>
         (\<forall>a. \<not> (dst \<le> a \<and> a < dst + nat (sint len)) \<longrightarrow> st' a = st a)))"
proof -
  have ret: "k = loop_bound len \<and>
      (\<forall>j < loop_bound len. \<exists>v f. st (src + j) = Some (IntCell v) \<and>
         Dequantize T v qparams = Inr f \<and> st' (dst + j) = Some (FloatCell f)) \<and>
      (\<forall>a. \<not> (dst \<le> a \<and> a < dst + loop_bound len) \<longrightarrow> st' a = st a)"
    if r: "Dequantize_bulk T src dst len qparams st = Inr (k, st')" for k st'
  proof -
    from r have l: "Dequantize_loop T src dst (loop_bound len) qparams (0, st) = Inr (k, st')"
      by (simp only: Dequantize_bulk_def)
    have "k = loop_bound len"
      using l by (rule Dequantize_loop_count) simp
    with Dequantize_loop_returns [OF l] show ?thesis
      by simp
  qed
  have neg: "2 ^ 64 - 2 ^ 31 \<le> loop_bound len \<and>
      ((\<exists>j < 2 ^ 64 - 2 ^ 31. st (dst + j) = None) \<longrightarrow>
         Dequantize_bulk T src dst len qparams st = Inl UndefinedBehaviour)"
    if n: "sint len < 0"
  proof -
    have "(2 :: int) ^ 64 - 2 ^ 31 \<le> 2 ^ 64 + sint len"
      using sint_32_bounds(1) [of len] by simp
    then have "nat (2 ^ 64 - 2 ^ 31) \<le> nat (2 ^ 64 + sint len)"
      by (rule nat_mono)
    then have b: "2 ^ 64 - 2 ^ 31 \<le> loop_bound len"
      by (simp add: loop_bound_negative [OF n])
    have "Dequantize_bulk T src dst len qparams st = Inl UndefinedBehaviour"
      if "j < 2 ^ 64 - 2 ^ 31" "st (dst + j) = None" for j
    proof -
      from that b have "0 \<le> j" "j < loop_bound len" "st (dst + j) = None" by simp_all
      then show ?thesis
        unfolding Dequantize_bulk_def by (rule Dequantize_loop_missing_cell)
    qed
    with b show ?thesis by blast
  qed
  have pos: "loop_bound len = nat (sint len) \<and>
      (\<exists>st'. Dequantize_bulk T src dst len qparams st = Inr (nat (sint len), st') \<and>
         (\<forall>i < nat (sint len). st' (dst + i) = Some (FloatCell (f i))) \<and>
         (\<forall>a. \<not> (dst \<le> a \<and> a < dst + nat (sint len)) \<longrightarrow> st' a = st a))"
    if a: "0 \<le> sint len \<and>
      (\<forall>i < nat (sint len). st (src + i) = Some (IntCell (v i))) \<and>
      (\<forall>i < nat (sint len). Dequantize T (v i) qparams = Inr (f i)) \<and>
      (\<forall>i < nat (sint len). st (dst + i) \<noteq> None) \<and>
      (\<forall>i < nat (sint len). \<forall>j < nat (sint len). src + i \<noteq> dst + j)"
  proof -
    from a have lb: "loop_bound len = nat (sint len)"
      by (simp add: loop_bound_nonneg)
    let ?n = "nat (sint len)"
    let ?st = "\<lambda>a. if dst + 0 \<le> a \<and> a < dst + ?n then Some (FloatCell (f (a - dst))) else st a"
    have "Dequantize_loop T src dst ?n qparams (0, st) = Inr (?n, ?st)"
      using a by (intro Dequantize_loop_runs) auto
    then have "Dequantize_bulk T src dst len qparams st = Inr (?n, ?st)"
      by (simp add: Dequantize_bulk_def lb)
    moreover have "\<forall>i < ?n. ?st (dst + i) = Some (FloatCell (f i))"
      by simp
    moreover have "\<forall>a. \<not> (dst \<le> a \<and> a < dst + ?n) \<longrightarrow> ?st a = st a"
      by simp
    ultimately show ?thesis using lb by blast
  qed
  from ret neg pos show ?thesis by blast
qed

text \<open>
  Two \<^verbatim>\<open>std::uint8_t\<close> cells at the addresses 0 and 1 and three \<^verbatim>\<open>float\<close> cells at
  2, 3 and 4. The length \<open>-1\<close> is undefined, the length 0 returns the store as it was,
  the length 2 writes the cells 2 and 3 and leaves the cell 4 as it was.
\<close>

theorem dequantize_bulk_iterations_witness:
  "sint (- 1 :: 32 word) < 0 \<and> loop_bound (- 1) = 2 ^ 64 - 1 \<and>
   Dequantize_bulk U8 0 2 (- 1) \<lparr>scale = Finite (1 / 2), zero_point = 128, precision = 8\<rparr>
     (\<lambda>a. if a < 2 then Some (IntCell (131 + int a))
            else if a < 5 then Some (FloatCell NaN) else None) = Inl UndefinedBehaviour \<and>
   Dequantize_bulk U8 0 2 0 \<lparr>scale = Finite (1 / 2), zero_point = 128, precision = 8\<rparr>
     (\<lambda>a. if a < 2 then Some (IntCell (131 + int a))
            else if a < 5 then Some (FloatCell NaN) else None)
     = Inr (0, \<lambda>a. if a < 2 then Some (IntCell (131 + int a))
            else if a < 5 then Some (FloatCell NaN) else None) \<and>
   loop_bound 2 = 2 \<and>
   (\<exists>st'. Dequantize_bulk U8 0 2 2 \<lparr>scale = Finite (1 / 2), zero_point = 128, precision = 8\<rparr>
       (\<lambda>a. if a < 2 then Some (IntCell (131 + int a))
            else if a < 5 then Some (FloatCell NaN) else None) = Inr (2, st') \<and>
     st' 2 = Some (FloatCell (Finite (3 / 2))) \<and> st' 3 = Some (FloatCell (Finite 2)) \<and>
     st' 4 = Some (FloatCell NaN))"
proof -
  let ?qp = "\<lparr>scale = Finite (1 / 2), zero_point = 128, precision = 8\<rparr>"
  let ?st = "\<lambda>a::nat. if a < 2 then Some (IntCell (131 + int a))
            else if a < 5 then Some (FloatCell NaN) else None"
  let ?v = "\<lambda>i::nat. 131 + int i"
  let ?f = "\<lambda>i::nat. if i = 0 then Finite (3 / 2) else Finite 2"
  have neg: "sint (- 1 :: 32 word) < 0" by simp
  have lb: "loop_bound (- 1) = 2 ^ 64 - 1" using loop_bound_negative [OF neg] by simp
  have miss: "\<exists>j < 2 ^ 64 - 2 ^ 31. ?st (2 + j) = None"
    by (rule exI [of _ 3]) simp
  from dequantize_bulk_iterations [of U8 0 2 "- 1" ?qp ?st] neg miss
  have ub: "Dequantize_bulk U8 0 2 (- 1) ?qp ?st = Inl UndefinedBehaviour"
    by blast
  have z: "Dequantize_bulk U8 0 2 0 ?qp ?st = Inr (0, ?st)"
    by (simp add: Dequantize_bulk_def loop_bound_def Dequantize_loop_exit)
  have d0: "Dequantize U8 131 ?qp = Inr (Finite (3 / 2))" by code_simp
  have d1: "Dequantize U8 132 ?qp = Inr (Finite 2)" by code_simp
  have two: "i < 2 \<longleftrightarrow> i = 0 \<or> i = 1" for i :: nat by auto
  have s2: "nat (sint (2 :: 32 word)) = 2" by simp
  have h: "0 \<le> sint (2 :: 32 word) \<and>
      (\<forall>i < nat (sint (2 :: 32 word)). ?st (0 + i) = Some (IntCell (?v i))) \<and>
      (\<forall>i < nat (sint (2 :: 32 word)). Dequantize U8 (?v i) ?qp = Inr (?f i)) \<and>
      (\<forall>i < nat (sint (2 :: 32 word)). ?st (2 + i) \<noteq> None) \<and>
      (\<forall>i < nat (sint (2 :: 32 word)). \<forall>j < nat (sint (2 :: 32 word)). (0 :: nat) + i \<noteq> 2 + j)"
    unfolding s2 by (simp add: two d0 d1)
  from dequantize_bulk_iterations [of U8 0 2 2 ?qp ?st ?v ?f] h
  have "loop_bound 2 = nat (sint (2 :: 32 word)) \<and>
      (\<exists>st'. Dequantize_bulk U8 0 2 2 ?qp ?st = Inr (nat (sint (2 :: 32 word)), st') \<and>
         (\<forall>i < nat (sint (2 :: 32 word)). st' (2 + i) = Some (FloatCell (?f i))) \<and>
         (\<forall>a. \<not> (2 \<le> a \<and> a < 2 + nat (sint (2 :: 32 word))) \<longrightarrow> st' a = ?st a))"
    by blast
  then obtain st' where l2: "loop_bound 2 = 2"
    and r: "Dequantize_bulk U8 0 2 2 ?qp ?st = Inr (2, st')"
    and w: "\<forall>i<2. st' (2 + i) = Some (FloatCell (?f i))"
    and fr: "\<forall>a. \<not> (2 \<le> a \<and> a < 2 + 2) \<longrightarrow> st' a = ?st a"
    unfolding s2 by blast
  have a: "st' 2 = Some (FloatCell (Finite (3 / 2)))" "st' 3 = Some (FloatCell (Finite 2))"
    using w [rule_format, of 0] w [rule_format, of 1] by simp_all
  have b: "st' 4 = Some (FloatCell NaN)"
    using fr by simp
  from r a b have "\<exists>st'. Dequantize_bulk U8 0 2 2 ?qp ?st = Inr (2, st') \<and>
     st' 2 = Some (FloatCell (Finite (3 / 2))) \<and> st' 3 = Some (FloatCell (Finite 2)) \<and>
     st' 4 = Some (FloatCell NaN)"
    by blast
  with neg lb ub z l2 show ?thesis by blast
qed

section \<open>The round trip through Quantize and Dequantize\<close>










end
